theory Spec2Isabelle
  imports Complex_Main "HOL-Library.Log_Nat" "HOL-Library.AList"
begin

section \<open>Python values\<close>

text \<open>
  The script \<^verbatim>\<open>scripts/claude_usage_stats.py\<close> works on values produced by
  \<^verbatim>\<open>json.loads\<close>, on Python numbers and on \<^verbatim>\<open>datetime\<close> objects. This section
  embeds those values and the operations the script applies to them. Every operation that
  can raise in Python returns a sum: \<open>Inl\<close> the exception, \<open>Inr\<close> the value.
\<close>

subsection \<open>Exceptions\<close>

text \<open>
  The exceptions that can arise in the script. \<open>CalledProcessError\<close> carries the captured
  standard error of the process, which \<^verbatim>\<open>run_command\<close> formats into its result.
\<close>

datatype exn =
    TypeError
  | AttributeError
  | ValueError
  | OverflowError
  | ZeroDivisionError
  | JSONDecodeError
  | CalledProcessError string
  | FileNotFoundError
  | PermissionError
  | UnicodeDecodeError
  | RecursionError

subsection \<open>Binary64 floating point\<close>

text \<open>
  A Python \<^verbatim>\<open>float\<close> is an IEEE 754 binary64 number. A finite float is represented by
  the rational number it denotes; the two infinities and NaN are separate constructors.
  The sign of zero is not represented (\<^verbatim>\<open>0.0 == -0.0\<close> in Python, and the script never
  divides by a float).
\<close>

datatype pyfloat = Finite rat | PosInf | NegInf | NaN

text \<open>\<open>ilog2 x\<close> is \<open>\<lfloor>log\<^sub>2 |x|\<rfloor>\<close> for \<open>x \<noteq> 0\<close>, computed from the bit lengths of
  numerator and denominator.\<close>

definition ilog2 :: "rat \<Rightarrow> int" where
  "ilog2 x =
     (let p = fst (quotient_of \<bar>x\<bar>); q = snd (quotient_of \<bar>x\<bar>);
          k = bitlen p - bitlen q
      in if 2 powi k \<le> \<bar>x\<bar> then k else k - 1)"

definition round_half_even :: "rat \<Rightarrow> int" where
  "round_half_even q =
     (let f = \<lfloor>q\<rfloor>; r = q - of_int f
      in if r < 1 / 2 then f
         else if 1 / 2 < r then f + 1
         else if even f then f else f + 1)"

text \<open>
  Rounding of an exact result to binary64, round-to-nearest, ties-to-even: 53 significant
  bits, the exponent of the unit in the last place not below \<open>-1074\<close> (subnormal numbers),
  and overflow to an infinity when the rounded value reaches \<open>2\<^sup>1\<^sup>0\<^sup>2\<^sup>4\<close>.
\<close>

definition round_to_ulp :: "rat \<Rightarrow> rat" where
  "round_to_ulp x =
     (if x = 0 then 0
      else let e = max (ilog2 x) (- 1022); ulp = 2 powi (e - 52)
           in of_int (round_half_even (x / ulp)) * ulp)"

definition fround :: "rat \<Rightarrow> pyfloat" where
  "fround x =
     (let r = round_to_ulp x
      in if 2 powi 1024 \<le> \<bar>r\<bar> then (if 0 < x then PosInf else NegInf) else Finite r)"

fun fneg :: "pyfloat \<Rightarrow> pyfloat" where
  "fneg (Finite a) = Finite (- a)"
| "fneg PosInf = NegInf"
| "fneg NegInf = PosInf"
| "fneg NaN = NaN"

fun fadd :: "pyfloat \<Rightarrow> pyfloat \<Rightarrow> pyfloat" where
  "fadd (Finite a) (Finite b) = fround (a + b)"
| "fadd NaN _ = NaN"
| "fadd _ NaN = NaN"
| "fadd PosInf NegInf = NaN"
| "fadd NegInf PosInf = NaN"
| "fadd PosInf _ = PosInf"
| "fadd NegInf _ = NegInf"
| "fadd _ PosInf = PosInf"
| "fadd _ NegInf = NegInf"

fun fmul :: "pyfloat \<Rightarrow> pyfloat \<Rightarrow> pyfloat" where
  "fmul (Finite a) (Finite b) = fround (a * b)"
| "fmul NaN _ = NaN"
| "fmul _ NaN = NaN"
| "fmul (Finite a) PosInf = (if a = 0 then NaN else if 0 < a then PosInf else NegInf)"
| "fmul (Finite a) NegInf = (if a = 0 then NaN else if 0 < a then NegInf else PosInf)"
| "fmul PosInf (Finite b) = (if b = 0 then NaN else if 0 < b then PosInf else NegInf)"
| "fmul NegInf (Finite b) = (if b = 0 then NaN else if 0 < b then NegInf else PosInf)"
| "fmul PosInf PosInf = PosInf"
| "fmul NegInf NegInf = PosInf"
| "fmul PosInf NegInf = NegInf"
| "fmul NegInf PosInf = NegInf"

text \<open>Float division \<^verbatim>\<open>x / y\<close>; Python raises \<^verbatim>\<open>ZeroDivisionError\<close> on a zero divisor.\<close>

fun fdiv :: "pyfloat \<Rightarrow> pyfloat \<Rightarrow> exn + pyfloat" where
  "fdiv (Finite a) (Finite b) = (if b = 0 then Inl ZeroDivisionError else Inr (fround (a / b)))"
| "fdiv NaN (Finite b) = (if b = 0 then Inl ZeroDivisionError else Inr NaN)"
| "fdiv PosInf (Finite b) =
     (if b = 0 then Inl ZeroDivisionError else Inr (if 0 < b then PosInf else NegInf))"
| "fdiv NegInf (Finite b) =
     (if b = 0 then Inl ZeroDivisionError else Inr (if 0 < b then NegInf else PosInf))"
| "fdiv _ NaN = Inr NaN"
| "fdiv NaN _ = Inr NaN"
| "fdiv (Finite a) _ = Inr (Finite 0)"
| "fdiv _ _ = Inr NaN"

text \<open>
  \<^verbatim>\<open>float(n)\<close> for a Python \<^verbatim>\<open>int\<close>, as the mixed arithmetic \<^verbatim>\<open>int + float\<close>
  performs it: correctly rounded, \<^verbatim>\<open>OverflowError\<close> when the integer is too large.
\<close>

definition float_of_int :: "int \<Rightarrow> exn + pyfloat" where
  "float_of_int n =
     (case fround (of_int n) of
        Finite r \<Rightarrow> Inr (Finite r)
      | _ \<Rightarrow> Inl OverflowError)"

text \<open>
  True division of two Python integers, \<^verbatim>\<open>a / b\<close>: the correctly rounded quotient,
  \<^verbatim>\<open>ZeroDivisionError\<close> on a zero divisor and \<^verbatim>\<open>OverflowError\<close> when the quotient is
  too large for a float.
\<close>

definition int_truediv :: "int \<Rightarrow> int \<Rightarrow> exn + pyfloat" where
  "int_truediv a b =
     (if b = 0 then Inl ZeroDivisionError
      else case fround (of_int a / of_int b) of
             Finite r \<Rightarrow> Inr (Finite r)
           | _ \<Rightarrow> Inl OverflowError)"

subsection \<open>JSON values\<close>

text \<open>
  What \<^verbatim>\<open>json.loads\<close> returns: \<^verbatim>\<open>None\<close>, a \<^verbatim>\<open>bool\<close>, an \<^verbatim>\<open>int\<close> (unbounded), a
  \<^verbatim>\<open>float\<close>, a \<^verbatim>\<open>str\<close>, a \<^verbatim>\<open>list\<close> or a \<^verbatim>\<open>dict\<close> with string keys. A dict is an
  association list in insertion order; a lookup takes the first pair with the key, and an
  assignment replaces the value in place or appends a new pair, as Python's dict does.
\<close>

datatype json =
    JNull
  | JBool bool
  | JInt int
  | JFloat pyfloat
  | JStr string
  | JList "json list"
  | JDict "(string \<times> json) list"

text \<open>Sequencing of two computations that may raise: the first exception propagates.\<close>

definition try_bind :: "exn + 'a \<Rightarrow> ('a \<Rightarrow> exn + 'b) \<Rightarrow> exn + 'b" where
  "try_bind m f = (case m of Inl e \<Rightarrow> Inl e | Inr x \<Rightarrow> f x)"

text \<open>Truth value of an object, as \<^verbatim>\<open>if x:\<close> and \<^verbatim>\<open>not x\<close> test it.\<close>

fun py_truthy :: "json \<Rightarrow> bool" where
  "py_truthy JNull = False"
| "py_truthy (JBool b) = b"
| "py_truthy (JInt n) = (n \<noteq> 0)"
| "py_truthy (JFloat (Finite r)) = (r \<noteq> 0)"
| "py_truthy (JFloat _) = True"
| "py_truthy (JStr s) = (s \<noteq> [])"
| "py_truthy (JList xs) = (xs \<noteq> [])"
| "py_truthy (JDict kvs) = (kvs \<noteq> [])"

fun is_substring :: "string \<Rightarrow> string \<Rightarrow> bool" where
  "is_substring p [] = (p = [])"
| "is_substring p (c # cs) = (take (length p) (c # cs) = p \<or> is_substring p cs)"

text \<open>
  \<^verbatim>\<open>k in x\<close> for a string \<open>k\<close>: a key of a dict, an element of a list, a substring of a
  string; the other values are not iterable and raise \<^verbatim>\<open>TypeError\<close>.
\<close>

fun py_contains :: "string \<Rightarrow> json \<Rightarrow> exn + bool" where
  "py_contains k (JDict kvs) = Inr (map_of kvs k \<noteq> None)"
| "py_contains k (JList xs) = Inr (JStr k \<in> set xs)"
| "py_contains k (JStr s) = Inr (is_substring k s)"
| "py_contains k _ = Inl TypeError"

text \<open>\<^verbatim>\<open>x.get(k, d)\<close>: only a dict has the method.\<close>

fun py_get :: "json \<Rightarrow> string \<Rightarrow> json \<Rightarrow> exn + json" where
  "py_get (JDict kvs) k d = Inr (case map_of kvs k of None \<Rightarrow> d | Some v \<Rightarrow> v)"
| "py_get _ k d = Inl AttributeError"

text \<open>\<^verbatim>\<open>x[k] = v\<close> for a string \<open>k\<close>: a list wants integer indices, a string is immutable,
  the other values do not support item assignment.\<close>

fun py_setitem :: "json \<Rightarrow> string \<Rightarrow> json \<Rightarrow> exn + json" where
  "py_setitem (JDict kvs) k v = Inr (JDict (AList.update k v kvs))"
| "py_setitem _ k v = Inl TypeError"

text \<open>\<^verbatim>\<open>for entry in x\<close>: the elements of a list, the keys of a dict, the characters of
  a string.\<close>

fun py_iter :: "json \<Rightarrow> exn + json list" where
  "py_iter (JList xs) = Inr xs"
| "py_iter (JDict kvs) = Inr (map (\<lambda>kv. JStr (fst kv)) kvs)"
| "py_iter (JStr s) = Inr (map (\<lambda>c. JStr [c]) s)"
| "py_iter _ = Inl TypeError"

text \<open>\<^verbatim>\<open>x.replace("Z", "")\<close>: a string method; every occurrence is removed.\<close>

fun py_replace_Z :: "json \<Rightarrow> exn + string" where
  "py_replace_Z (JStr s) = Inr (filter (\<lambda>c. c \<noteq> CHR ''Z'') s)"
| "py_replace_Z _ = Inl AttributeError"

text \<open>
  \<^verbatim>\<open>a + b\<close>. A \<^verbatim>\<open>bool\<close> is an \<^verbatim>\<open>int\<close> (\<^verbatim>\<open>True == 1\<close>); an \<^verbatim>\<open>int\<close> meeting a
  \<^verbatim>\<open>float\<close> is converted first, which can overflow; strings and lists concatenate.
\<close>

fun as_int :: "json \<Rightarrow> int option" where
  "as_int (JInt n) = Some n"
| "as_int (JBool b) = Some (if b then 1 else 0)"
| "as_int _ = None"

definition py_add :: "json \<Rightarrow> json \<Rightarrow> exn + json" where
  "py_add a b =
     (case a of
        JFloat x \<Rightarrow>
          (case b of
             JFloat y \<Rightarrow> Inr (JFloat (fadd x y))
           | _ \<Rightarrow>
               (case as_int b of
                  None \<Rightarrow> Inl TypeError
                | Some n \<Rightarrow> try_bind (float_of_int n) (\<lambda>y. Inr (JFloat (fadd x y)))))
      | JStr s \<Rightarrow> (case b of JStr t \<Rightarrow> Inr (JStr (s @ t)) | _ \<Rightarrow> Inl TypeError)
      | JList xs \<Rightarrow> (case b of JList ys \<Rightarrow> Inr (JList (xs @ ys)) | _ \<Rightarrow> Inl TypeError)
      | _ \<Rightarrow>
          (case as_int a of
             None \<Rightarrow> Inl TypeError
           | Some m \<Rightarrow>
               (case b of
                  JFloat y \<Rightarrow> try_bind (float_of_int m) (\<lambda>x. Inr (JFloat (fadd x y)))
                | _ \<Rightarrow>
                    (case as_int b of
                       None \<Rightarrow> Inl TypeError
                     | Some n \<Rightarrow> Inr (JInt (m + n))))))"

text \<open>\<^verbatim>\<open>x / n\<close> for an integer literal \<open>n\<close>: true division; the result is a float.\<close>

definition py_truediv :: "json \<Rightarrow> int \<Rightarrow> exn + pyfloat" where
  "py_truediv a n =
     (case a of
        JFloat x \<Rightarrow> try_bind (float_of_int n) (\<lambda>y. fdiv x y)
      | _ \<Rightarrow> (case as_int a of None \<Rightarrow> Inl TypeError | Some m \<Rightarrow> int_truediv m n))"

section \<open>Cost calculator\<close>

text \<open>
  \<^verbatim>\<open>COST_PER_1K_INPUT_TOKENS = 0.03\<close> and \<^verbatim>\<open>COST_PER_1K_OUTPUT_TOKENS = 0.15\<close>: a float
  literal denotes the binary64 number nearest to the decimal.
\<close>

definition COST_PER_1K_INPUT_TOKENS :: pyfloat where
  "COST_PER_1K_INPUT_TOKENS = fround (3 / 100)"

definition COST_PER_1K_OUTPUT_TOKENS :: pyfloat where
  "COST_PER_1K_OUTPUT_TOKENS = fround (15 / 100)"

definition DAILY_LOG_LIMIT :: int where "DAILY_LOG_LIMIT = 100"
definition WEEKLY_LOG_LIMIT :: int where "WEEKLY_LOG_LIMIT = 500"
definition MONTHLY_LOG_LIMIT :: int where "MONTHLY_LOG_LIMIT = 1000"
definition SESSION_LOG_LIMIT :: int where "SESSION_LOG_LIMIT = 50"

text \<open>
  \<^verbatim>\<open>
  def calculate_cost(input_tokens, output_tokens):
      input_cost = (input_tokens / 1000) * COST_PER_1K_INPUT_TOKENS
      output_cost = (output_tokens / 1000) * COST_PER_1K_OUTPUT_TOKENS
      return input_cost + output_cost
  \<close>
  The arguments are whatever the caller read from JSON or accumulated.
\<close>

definition calculate_cost :: "json \<Rightarrow> json \<Rightarrow> exn + pyfloat" where
  "calculate_cost input_tokens output_tokens =
     try_bind (py_truediv input_tokens 1000) (\<lambda>qi.
       let input_cost = fmul qi COST_PER_1K_INPUT_TOKENS in
       try_bind (py_truediv output_tokens 1000) (\<lambda>qo.
         let output_cost = fmul qo COST_PER_1K_OUTPUT_TOKENS in
         Inr (fadd input_cost output_cost)))"

section \<open>Dates and times\<close>

text \<open>
  A naive \<^verbatim>\<open>datetime\<close> (what \<^verbatim>\<open>datetime.now()\<close> returns) is the number of microseconds
  since \<^verbatim>\<open>0001-01-01T00:00:00\<close>; the type holds the years 1 to 9999, and arithmetic that
  leaves this range raises \<^verbatim>\<open>OverflowError\<close>. A parsed timestamp can also be aware: it
  then carries its UTC offset, in microseconds.
\<close>

datatype pydt = Naive int | Aware int int

definition US_PER_SECOND :: int where "US_PER_SECOND = 1000000"
definition US_PER_MINUTE :: int where "US_PER_MINUTE = 60000000"
definition US_PER_HOUR :: int where "US_PER_HOUR = 3600000000"
definition US_PER_DAY :: int where "US_PER_DAY = 86400000000"

text \<open>\<^verbatim>\<open>date.max.toordinal()\<close> is 3652059: the days from 0001-01-01 to 9999-12-31.\<close>

definition MAX_ORDINAL :: int where "MAX_ORDINAL = 3652059"

definition dt_valid :: "int \<Rightarrow> bool" where
  "dt_valid t = (0 \<le> t \<and> t < MAX_ORDINAL * US_PER_DAY)"

text \<open>\<^verbatim>\<open>timedelta(days=n)\<close>: the magnitude of the days is at most 999999999.\<close>

definition timedelta_days :: "int \<Rightarrow> exn + int" where
  "timedelta_days n = (if \<bar>n\<bar> \<le> 999999999 then Inr (n * US_PER_DAY) else Inl OverflowError)"

text \<open>\<^verbatim>\<open>t - delta\<close> for a naive datetime and a timedelta.\<close>

definition dt_sub :: "int \<Rightarrow> int \<Rightarrow> exn + int" where
  "dt_sub t delta = (if dt_valid (t - delta) then Inr (t - delta) else Inl OverflowError)"

text \<open>\<^verbatim>\<open>t.replace(hour=0, minute=0, second=0, microsecond=0)\<close>.\<close>

definition start_of_day :: "int \<Rightarrow> int" where
  "start_of_day t = t - t mod US_PER_DAY"

text \<open>\<^verbatim>\<open>t.weekday()\<close>: Monday is 0, and 0001-01-01 was a Monday.\<close>

definition weekday :: "int \<Rightarrow> int" where
  "weekday t = (t div US_PER_DAY) mod 7"

text \<open>The proleptic Gregorian calendar: year, month and day of a day number (0 is 0001-01-01).\<close>

definition month_lengths :: "bool \<Rightarrow> int list" where
  "month_lengths leap = [31, if leap then 29 else 28, 31, 30, 31, 30, 31, 31, 30, 31, 30, 31]"

fun month_day :: "int list \<Rightarrow> int \<Rightarrow> int \<Rightarrow> int \<times> int" where
  "month_day [] m n = (m, n + 1)"
| "month_day (l # ls) m n = (if n < l then (m, n + 1) else month_day ls (m + 1) (n - l))"

definition ord2ymd :: "int \<Rightarrow> int \<times> int \<times> int" where
  "ord2ymd n =
     (let n400 = n div 146097; r400 = n mod 146097;
          n100 = r400 div 36524; r100 = r400 mod 36524;
          n4 = r100 div 1461; r4 = r100 mod 1461;
          n1 = r4 div 365; r1 = r4 mod 365;
          year = n400 * 400 + n100 * 100 + n4 * 4 + n1 + 1
      in if n1 = 4 \<or> n100 = 4 then (year - 1, 12, 31)
         else let leap = (n1 = 3 \<and> (n4 \<noteq> 24 \<or> n100 = 3))
              in (year, month_day (month_lengths leap) 1 r1))"

text \<open>\<^verbatim>\<open>t.replace(day=1, hour=0, minute=0, second=0, microsecond=0)\<close>.\<close>

definition start_of_month :: "int \<Rightarrow> int" where
  "start_of_month t =
     (let day = snd (snd (ord2ymd (t div US_PER_DAY)))
      in start_of_day t - (day - 1) * US_PER_DAY)"

text \<open>Decimal digits: \<open>zpad w n\<close> is \<^verbatim>\<open>"%0wd" % n\<close> for \<open>n < 10\<^sup>w\<close>, \<open>str_int\<close> is \<^verbatim>\<open>str\<close>.\<close>

definition digit_char :: "nat \<Rightarrow> char" where
  "digit_char d = ''0123456789'' ! (d mod 10)"

fun zpad :: "nat \<Rightarrow> nat \<Rightarrow> string" where
  "zpad 0 n = []"
| "zpad (Suc w) n = zpad w (n div 10) @ [digit_char n]"

fun str_nat :: "nat \<Rightarrow> string" where
  "str_nat n = (if n < 10 then [digit_char n] else str_nat (n div 10) @ [digit_char n])"

definition str_int :: "int \<Rightarrow> string" where
  "str_int i = (if i < 0 then CHR ''-'' # str_nat (nat (- i)) else str_nat (nat i))"

text \<open>
  \<^verbatim>\<open>t.isoformat()\<close>: \<^verbatim>\<open>YYYY-MM-DDTHH:MM:SS\<close>, then \<^verbatim>\<open>.ffffff\<close> when the microseconds are not
  zero, then for an aware datetime the offset \<^verbatim>\<open>+HH:MM\<close>, with seconds and microseconds
  when they are not zero.
\<close>

definition iso_clock :: "int \<Rightarrow> string" where
  "iso_clock r =
     zpad 2 (nat (r div US_PER_HOUR)) @ '':'' @
     zpad 2 (nat ((r div US_PER_MINUTE) mod 60)) @ '':'' @
     zpad 2 (nat ((r div US_PER_SECOND) mod 60)) @
     (if r mod US_PER_SECOND = 0 then [] else ''.'' @ zpad 6 (nat (r mod US_PER_SECOND)))"

definition iso_naive :: "int \<Rightarrow> string" where
  "iso_naive t =
     (case ord2ymd (t div US_PER_DAY) of
        (y, m, d) \<Rightarrow>
          zpad 4 (nat y) @ ''-'' @ zpad 2 (nat m) @ ''-'' @ zpad 2 (nat d) @ ''T'' @
          iso_clock (t mod US_PER_DAY))"

definition iso_offset :: "int \<Rightarrow> string" where
  "iso_offset off =
     (let a = \<bar>off\<bar>
      in (if off < 0 then ''-'' else ''+'') @
         zpad 2 (nat (a div US_PER_HOUR)) @ '':'' @
         zpad 2 (nat ((a div US_PER_MINUTE) mod 60)) @
         (if a mod US_PER_MINUTE = 0 then []
          else '':'' @ zpad 2 (nat ((a div US_PER_SECOND) mod 60)) @
               (if a mod US_PER_SECOND = 0 then []
                else ''.'' @ zpad 6 (nat (a mod US_PER_SECOND)))))"

fun isoformat :: "pydt \<Rightarrow> string" where
  "isoformat (Naive t) = iso_naive t"
| "isoformat (Aware t off) = iso_naive t @ iso_offset off"

text \<open>
  Comparison of two datetimes: a naive and an aware one cannot be ordered
  (\<^verbatim>\<open>TypeError\<close>); two aware ones are compared as instants.
\<close>

fun dt_less :: "pydt \<Rightarrow> pydt \<Rightarrow> exn + bool" where
  "dt_less (Naive a) (Naive b) = Inr (a < b)"
| "dt_less (Aware a oa) (Aware b ob) = Inr (a - oa < b - ob)"
| "dt_less (Naive a) (Aware b ob) = Inl TypeError"
| "dt_less (Aware a oa) (Naive b) = Inl TypeError"

definition dt_greater :: "pydt \<Rightarrow> pydt \<Rightarrow> exn + bool" where
  "dt_greater a b = dt_less b a"

section \<open>The environment\<close>

text \<open>
  The script talks to the outside through \<^verbatim>\<open>subprocess.run\<close>, \<^verbatim>\<open>datetime.now()\<close> and
  the configuration files. The environment gives the outcome of each interaction; process
  launches and clock readings are numbered, so that two launches of the same command may
  differ. The two parsers of the standard library, \<^verbatim>\<open>json.loads\<close> and
  \<^verbatim>\<open>datetime.fromisoformat\<close> (on a string), and \<^verbatim>\<open>strftime("%Y-%m-%d")\<close>, which the C
  library formats, are taken as given functions. \<^verbatim>\<open>json.loads\<close> returns the value or the
  exception it raises: \<^verbatim>\<open>JSONDecodeError\<close> on a text that is not JSON, and on JSON that it
  cannot build, \<^verbatim>\<open>ValueError\<close> (an integer literal of more than 4300 digits) or
  \<^verbatim>\<open>RecursionError\<close> (too many nested brackets). For \<^verbatim>\<open>fromisoformat\<close>, \<open>None\<close> is its
  \<^verbatim>\<open>ValueError\<close>.
\<close>

datatype proc_outcome =
    Exited int string string
  | Raised exn

datatype file_state = Missing | Unreadable | Content string

record env =
  spawn :: "nat \<Rightarrow> string list \<Rightarrow> proc_outcome"
  clock :: "nat \<Rightarrow> int"
  json_loads :: "string \<Rightarrow> exn + json"
  fromisoformat :: "string \<Rightarrow> pydt option"
  strftime_ymd :: "int \<Rightarrow> string"
  config_file :: "string \<Rightarrow> file_state"

text \<open>
  \<^verbatim>\<open>subprocess.run(command, capture_output=True, text=True, check=True)\<close>: the process
  exits with a return code, its standard output and its standard error, and a non-zero
  code raises \<^verbatim>\<open>CalledProcessError\<close>; or the launch itself raises (the executable is
  missing or not executable, the output is not text).
\<close>

definition subprocess_run :: "env \<Rightarrow> nat \<Rightarrow> string list \<Rightarrow> exn + string" where
  "subprocess_run e t command =
     (case spawn e t command of
        Exited rc out err \<Rightarrow> if rc \<noteq> 0 then Inl (CalledProcessError err) else Inr out
      | Raised x \<Rightarrow> Inl x)"

text \<open>
  \<^verbatim>\<open>
  def run_command(command):
      try:
          result = subprocess.run(command, capture_output=True, text=True, check=True)
          return result.stdout, True
      except subprocess.CalledProcessError as e:
          return f"Error: {e.stderr}", False
  \<close>
  The second component of the result is the number of the next interaction.
\<close>

definition run_command :: "env \<Rightarrow> string list \<Rightarrow> nat \<Rightarrow> exn + ((string \<times> bool) \<times> nat)" where
  "run_command e command t =
     (case subprocess_run e t command of
        Inr out \<Rightarrow> Inr ((out, True), Suc t)
      | Inl (CalledProcessError err) \<Rightarrow> Inr ((''Error: '' @ err, False), Suc t)
      | Inl x \<Rightarrow> Inl x)"







section \<open>Stats fetcher\<close>

subsection \<open>Token counts of a log entry\<close>

text \<open>
  \<^verbatim>\<open>
  input_tokens += entry.get("tokens", {}).get("prompt", 0)
  output_tokens += entry.get("tokens", {}).get("completion", 0)
  \<close>
  The two statements run in order, so an exception in the second leaves the first sum
  updated. The result is the pair of counts reached and the exception, if one was raised.
\<close>

definition entry_count :: "json \<Rightarrow> string \<Rightarrow> exn + json" where
  "entry_count entry k =
     try_bind (py_get entry ''tokens'' (JDict [])) (\<lambda>tokens. py_get tokens k (JInt 0))"

definition add_entry_tokens :: "json \<times> json \<Rightarrow> json \<Rightarrow> (json \<times> json) \<times> exn option" where
  "add_entry_tokens acc entry =
     (case acc of (input_tokens, output_tokens) \<Rightarrow>
        (case try_bind (entry_count entry ''prompt'') (py_add input_tokens) of
           Inl x \<Rightarrow> ((input_tokens, output_tokens), Some x)
         | Inr input_tokens' \<Rightarrow>
             (case try_bind (entry_count entry ''completion'') (py_add output_tokens) of
                Inl x \<Rightarrow> ((input_tokens', output_tokens), Some x)
              | Inr output_tokens' \<Rightarrow> ((input_tokens', output_tokens'), None))))"

subsection \<open>Current session\<close>

text \<open>
  The structured path of \<^verbatim>\<open>get_current_session_stats\<close>:
  \<^verbatim>\<open>
  stats = json.loads(cmd)
  if "session_start" not in stats:
      stats["session_start"] = (datetime.now() - timedelta(hours=1)).isoformat()
  return stats
  \<close>
\<close>

definition session_from_stats :: "env \<Rightarrow> json \<Rightarrow> nat \<Rightarrow> exn + (json \<times> nat)" where
  "session_from_stats e stats t =
     try_bind (py_contains ''session_start'' stats) (\<lambda>present.
       if \<not> present then
         try_bind (dt_sub (clock e t) US_PER_HOUR) (\<lambda>start.
         try_bind (py_setitem stats ''session_start'' (JStr (isoformat (Naive start)))) (\<lambda>stats'.
           Inr (stats', Suc t)))
       else Inr (stats, t))"

text \<open>
  The timestamps of the session's log entries:
  \<^verbatim>\<open>
  try:
      entry_time = datetime.fromisoformat(timestamp.replace("Z", ""))
      if not first_timestamp or entry_time < first_timestamp:
          first_timestamp = entry_time
      if not last_timestamp or entry_time > last_timestamp:
          last_timestamp = entry_time
  except (ValueError, TypeError):
      pass
  \<close>
  \<open>track_timestamp\<close> is the body of the \<^verbatim>\<open>try\<close>: the pair reached and the exception raised,
  if any.
\<close>

definition track_timestamp ::
  "env \<Rightarrow> pydt option \<times> pydt option \<Rightarrow> json \<Rightarrow> (pydt option \<times> pydt option) \<times> exn option"
where
  "track_timestamp e fl timestamp =
     (case fl of (first_timestamp, last_timestamp) \<Rightarrow>
        (case py_replace_Z timestamp of
           Inl x \<Rightarrow> (fl, Some x)
         | Inr text \<Rightarrow>
             (case fromisoformat e text of
                None \<Rightarrow> (fl, Some ValueError)
              | Some entry_time \<Rightarrow>
                  (case (case first_timestamp of
                           None \<Rightarrow> Inr True
                         | Some f \<Rightarrow> dt_less entry_time f) of
                     Inl x \<Rightarrow> (fl, Some x)
                   | Inr lower \<Rightarrow>
                       (let first_timestamp' = (if lower then Some entry_time else first_timestamp)
                        in case (case last_timestamp of
                                   None \<Rightarrow> Inr True
                                 | Some l \<Rightarrow> dt_greater entry_time l) of
                             Inl x \<Rightarrow> ((first_timestamp', last_timestamp), Some x)
                           | Inr higher \<Rightarrow>
                               ((first_timestamp',
                                 if higher then Some entry_time else last_timestamp), None))))))"

text \<open>
  The state of the session loop: the two counts and the first and last timestamp.
  One iteration:
  \<^verbatim>\<open>
  if "tokens" in entry:
      input_tokens += ...; output_tokens += ...
  timestamp = entry.get("timestamp")
  if timestamp:
      try: ... except (ValueError, TypeError): pass
  \<close>
\<close>

type_synonym session_acc = "(json \<times> json) \<times> (pydt option \<times> pydt option)"

definition session_log_entry :: "env \<Rightarrow> session_acc \<Rightarrow> json \<Rightarrow> exn + session_acc" where
  "session_log_entry e acc entry =
     (case acc of (counts, fl) \<Rightarrow>
        try_bind (py_contains ''tokens'' entry) (\<lambda>has_tokens.
        try_bind (if has_tokens
                  then (case add_entry_tokens counts entry of
                          (counts', None) \<Rightarrow> Inr counts'
                        | (counts', Some x) \<Rightarrow> Inl x)
                  else Inr counts) (\<lambda>counts'.
        try_bind (py_get entry ''timestamp'' JNull) (\<lambda>timestamp.
          if py_truthy timestamp then
            (case track_timestamp e fl timestamp of
               (fl', None) \<Rightarrow> Inr (counts', fl')
             | (fl', Some x) \<Rightarrow>
                 if x = ValueError \<or> x = TypeError then Inr (counts', fl') else Inl x)
          else Inr (counts', fl)))))"

fun session_log_loop :: "env \<Rightarrow> session_acc \<Rightarrow> json list \<Rightarrow> exn + session_acc" where
  "session_log_loop e acc [] = Inr acc"
| "session_log_loop e acc (entry # rest) =
     try_bind (session_log_entry e acc entry) (\<lambda>acc'. session_log_loop e acc' rest)"

text \<open>
  The log path of \<^verbatim>\<open>get_current_session_stats\<close>, from the parsed logs to the returned
  dict; \<^verbatim>\<open>datetime.now()\<close> is read only when no timestamp was found.
\<close>

definition session_from_logs :: "env \<Rightarrow> json \<Rightarrow> nat \<Rightarrow> exn + (json \<times> nat)" where
  "session_from_logs e logs t =
     try_bind (py_iter logs) (\<lambda>entries.
     try_bind (session_log_loop e ((JInt 0, JInt 0), (None, None)) entries) (\<lambda>acc.
       case acc of ((input_tokens, output_tokens), (first_timestamp, last_timestamp)) \<Rightarrow>
         (let (session_start, t') =
                (case first_timestamp of
                   Some f \<Rightarrow> (isoformat f, t)
                 | None \<Rightarrow> (isoformat (Naive (clock e t)), Suc t))
          in try_bind (py_add input_tokens output_tokens) (\<lambda>total.
               Inr (JDict [(''input_tokens'', input_tokens),
                           (''output_tokens'', output_tokens),
                           (''total_tokens'', total),
                           (''session_start'', JStr session_start)], t')))))"

text \<open>The last resort of \<^verbatim>\<open>get_current_session_stats\<close>: zeros, and a start one hour ago.\<close>

definition session_empty :: "env \<Rightarrow> nat \<Rightarrow> exn + (json \<times> nat)" where
  "session_empty e t =
     (let now = clock e t
      in try_bind (dt_sub now US_PER_HOUR) (\<lambda>session_start.
           Inr (JDict [(''input_tokens'', JInt 0),
                       (''output_tokens'', JInt 0),
                       (''total_tokens'', JInt 0),
                       (''session_start'', JStr (isoformat (Naive session_start)))], Suc t)))"

text \<open>
  A command's output parsed as JSON, as every fetch starts:
  \<^verbatim>\<open>cmd, success = run_command(...)\<close>, then \<^verbatim>\<open>json.loads(cmd)\<close> under \<^verbatim>\<open>if success\<close> in a
  \<^verbatim>\<open>try\<close>. \<open>caught\<close> lists the exceptions of its \<^verbatim>\<open>except\<close> clause: an exception of
  \<^verbatim>\<open>json.loads\<close> that is listed ends the \<^verbatim>\<open>try\<close> and the function goes on to its next
  source, any other one leaves the function. \<^verbatim>\<open>run_command\<close> is called before the
  \<^verbatim>\<open>try\<close>, so what it raises is never caught. \<open>None\<close>: the command was not successful or
  \<^verbatim>\<open>json.loads\<close> raised a caught exception.
\<close>

definition fetch_json ::
  "env \<Rightarrow> exn list \<Rightarrow> string list \<Rightarrow> nat \<Rightarrow> exn + (json option \<times> nat)"
where
  "fetch_json e caught command t =
     try_bind (run_command e command t) (\<lambda>((cmd, success), t').
       if success then
         (case json_loads e cmd of
            Inr v \<Rightarrow> Inr (Some v, t')
          | Inl x \<Rightarrow> if x \<in> set caught then Inr (None, t') else Inl x)
       else Inr (None, t'))"

text \<open>
  \<^verbatim>\<open>get_current_session_stats\<close>: the structured query, then the logs, then the last
  resort. The \<^verbatim>\<open>try\<close> around the log path catches \<^verbatim>\<open>JSONDecodeError\<close> and
  \<^verbatim>\<open>AttributeError\<close>; the one around the structured path only \<^verbatim>\<open>JSONDecodeError\<close>.
\<close>

definition get_current_session_stats :: "env \<Rightarrow> nat \<Rightarrow> exn + (json \<times> nat)" where
  "get_current_session_stats e t =
     try_bind (fetch_json e [JSONDecodeError] [''claude'', ''stats'', ''--format'', ''json''] t) (\<lambda>(parsed, t1).
       case parsed of
         Some stats \<Rightarrow> session_from_stats e stats t1
       | None \<Rightarrow>
           try_bind (fetch_json e [JSONDecodeError, AttributeError]
               [''claude'', ''logs'', ''--format'', ''json'', ''--limit'',
                                   str_int SESSION_LOG_LIMIT] t1) (\<lambda>(parsed2, t2).
             case parsed2 of
               Some logs \<Rightarrow>
                 (case session_from_logs e logs t2 of
                    Inl x \<Rightarrow> if x = AttributeError then session_empty e t2 else Inl x
                  | Inr r \<Rightarrow> Inr r)
             | None \<Rightarrow> session_empty e t2))"

subsection \<open>Time periods\<close>

text \<open>The start of the window when the caller gave none.\<close>

definition default_start :: "string \<Rightarrow> int \<Rightarrow> exn + int" where
  "default_start period now =
     (if period = ''daily'' then Inr (start_of_day now)
      else if period = ''weekly'' then
        try_bind (timedelta_days (weekday now)) (\<lambda>delta.
        try_bind (dt_sub now delta) (\<lambda>monday. Inr (start_of_day monday)))
      else if period = ''monthly'' then Inr (start_of_month now)
      else try_bind (timedelta_days 1) (dt_sub now))"

text \<open>
  What both structured paths of \<^verbatim>\<open>get_time_period_stats\<close> do with the parsed stats:
  \<^verbatim>\<open>
  stats["period"] = period
  stats["start_time"] = start_time.isoformat()
  stats["end_time"] = end_time.isoformat()
  stats["total_tokens"] = stats.get("input_tokens", 0) + stats.get("output_tokens", 0)
  stats["cost"] = calculate_cost(stats.get("input_tokens", 0), stats.get("output_tokens", 0))
  return stats
  \<close>
\<close>

definition fill_period_stats :: "string \<Rightarrow> int \<Rightarrow> int \<Rightarrow> json \<Rightarrow> exn + json" where
  "fill_period_stats period start_time end_time stats =
     try_bind (py_setitem stats ''period'' (JStr period)) (\<lambda>s1.
     try_bind (py_setitem s1 ''start_time'' (JStr (isoformat (Naive start_time)))) (\<lambda>s2.
     try_bind (py_setitem s2 ''end_time'' (JStr (isoformat (Naive end_time)))) (\<lambda>s3.
     try_bind (py_get s3 ''input_tokens'' (JInt 0)) (\<lambda>tin.
     try_bind (py_get s3 ''output_tokens'' (JInt 0)) (\<lambda>tout.
     try_bind (py_add tin tout) (\<lambda>total.
     try_bind (py_setitem s3 ''total_tokens'' total) (\<lambda>s4.
     try_bind (py_get s4 ''input_tokens'' (JInt 0)) (\<lambda>tin'.
     try_bind (py_get s4 ''output_tokens'' (JInt 0)) (\<lambda>tout'.
     try_bind (calculate_cost tin' tout') (\<lambda>cost.
       py_setitem s4 ''cost'' (JFloat cost)))))))))))"

text \<open>
  One iteration of the log loop of \<^verbatim>\<open>get_time_period_stats\<close>:
  \<^verbatim>\<open>
  timestamp = entry.get("timestamp")
  if not timestamp:
      continue
  try:
      entry_time = datetime.fromisoformat(timestamp.replace("Z", ""))
      if entry_time < start_time or entry_time > end_time:
          continue
      if "tokens" in entry:
          input_tokens += ...; output_tokens += ...
  except (ValueError, TypeError):
      continue
  \<close>
  \<open>window_body\<close> is the body of the \<^verbatim>\<open>try\<close>: the counts reached and the exception raised,
  if any. The entry is a dict there, since \<^verbatim>\<open>entry.get\<close> has returned.
\<close>

definition window_body ::
  "env \<Rightarrow> int \<Rightarrow> int \<Rightarrow> json \<times> json \<Rightarrow> json \<Rightarrow> json \<Rightarrow> (json \<times> json) \<times> exn option"
where
  "window_body e start_time end_time counts entry timestamp =
     (case py_replace_Z timestamp of
        Inl x \<Rightarrow> (counts, Some x)
      | Inr text \<Rightarrow>
          (case fromisoformat e text of
             None \<Rightarrow> (counts, Some ValueError)
           | Some entry_time \<Rightarrow>
               (case dt_less entry_time (Naive start_time) of
                  Inl x \<Rightarrow> (counts, Some x)
                | Inr before \<Rightarrow>
                    if before then (counts, None)
                    else (case dt_greater entry_time (Naive end_time) of
                            Inl x \<Rightarrow> (counts, Some x)
                          | Inr after \<Rightarrow>
                              if after then (counts, None)
                              else (case py_contains ''tokens'' entry of
                                      Inl x \<Rightarrow> (counts, Some x)
                                    | Inr has_tokens \<Rightarrow>
                                        if has_tokens then add_entry_tokens counts entry
                                        else (counts, None))))))"

definition period_log_entry ::
  "env \<Rightarrow> int \<Rightarrow> int \<Rightarrow> json \<times> json \<Rightarrow> json \<Rightarrow> exn + (json \<times> json)"
where
  "period_log_entry e start_time end_time counts entry =
     try_bind (py_get entry ''timestamp'' JNull) (\<lambda>timestamp.
       if \<not> py_truthy timestamp then Inr counts
       else (case window_body e start_time end_time counts entry timestamp of
               (counts', None) \<Rightarrow> Inr counts'
             | (counts', Some x) \<Rightarrow>
                 if x = ValueError \<or> x = TypeError then Inr counts' else Inl x))"

fun period_log_loop ::
  "env \<Rightarrow> int \<Rightarrow> int \<Rightarrow> json \<times> json \<Rightarrow> json list \<Rightarrow> exn + (json \<times> json)"
where
  "period_log_loop e start_time end_time counts [] = Inr counts"
| "period_log_loop e start_time end_time counts (entry # rest) =
     try_bind (period_log_entry e start_time end_time counts entry)
       (\<lambda>counts'. period_log_loop e start_time end_time counts' rest)"

definition log_limit :: "string \<Rightarrow> int" where
  "log_limit period =
     (if period = ''monthly'' then MONTHLY_LOG_LIMIT
      else if period = ''weekly'' then WEEKLY_LOG_LIMIT
      else if period = ''daily'' then DAILY_LOG_LIMIT
      else SESSION_LOG_LIMIT)"

text \<open>
  The log fallback of \<^verbatim>\<open>get_time_period_stats\<close>: the counts start at zero and stay there
  when the logs cannot be fetched or parsed; the cost is computed before the dict is built.
\<close>

definition period_from_logs ::
  "env \<Rightarrow> string \<Rightarrow> int \<Rightarrow> int \<Rightarrow> nat \<Rightarrow> exn + (json \<times> nat)"
where
  "period_from_logs e period start_time end_time t =
     try_bind (fetch_json e [JSONDecodeError] [''claude'', ''logs'', ''--format'', ''json'', ''--limit'',
                             str_int (log_limit period)] t) (\<lambda>(parsed, t').
     try_bind (case parsed of
                 Some logs \<Rightarrow>
                   try_bind (py_iter logs)
                     (period_log_loop e start_time end_time (JInt 0, JInt 0))
               | None \<Rightarrow> Inr (JInt 0, JInt 0)) (\<lambda>(input_tokens, output_tokens).
     try_bind (calculate_cost input_tokens output_tokens) (\<lambda>cost.
     try_bind (py_add input_tokens output_tokens) (\<lambda>total.
       Inr (JDict [(''period'', JStr period),
                   (''input_tokens'', input_tokens),
                   (''output_tokens'', output_tokens),
                   (''total_tokens'', total),
                   (''cost'', JFloat cost),
                   (''start_time'', JStr (isoformat (Naive start_time))),
                   (''end_time'', JStr (isoformat (Naive end_time)))], t')))))"

text \<open>The query by date range, then the logs.\<close>

definition period_from_range ::
  "env \<Rightarrow> string \<Rightarrow> int \<Rightarrow> int \<Rightarrow> nat \<Rightarrow> exn + (json \<times> nat)"
where
  "period_from_range e period start_time end_time t =
     (let start_str = strftime_ymd e start_time; end_str = strftime_ymd e end_time
      in try_bind (fetch_json e [JSONDecodeError] [''claude'', ''stats'', ''--from'', start_str, ''--to'', end_str,
                                 ''--format'', ''json''] t) (\<lambda>(parsed, t').
           case parsed of
             Some stats \<Rightarrow>
               try_bind (fill_period_stats period start_time end_time stats) (\<lambda>r. Inr (r, t'))
           | None \<Rightarrow> period_from_logs e period start_time end_time t'))"

text \<open>
  \<^verbatim>\<open>get_time_period_stats(period, start_time=None, end_time=None)\<close>. A datetime is always
  true, so \<^verbatim>\<open>if not end_time\<close> tests for \<^verbatim>\<open>None\<close>.
\<close>

definition get_time_period_stats ::
  "env \<Rightarrow> string \<Rightarrow> int option \<Rightarrow> int option \<Rightarrow> nat \<Rightarrow> exn + (json \<times> nat)"
where
  "get_time_period_stats e period start_arg end_arg t =
     (let now = clock e t;
          end_time = (case end_arg of None \<Rightarrow> now | Some x \<Rightarrow> x)
      in try_bind (case start_arg of
                     None \<Rightarrow> default_start period now
                   | Some x \<Rightarrow> Inr x) (\<lambda>start_time.
           if period \<in> set [''daily'', ''weekly'', ''monthly''] then
             try_bind (fetch_json e [JSONDecodeError] [''claude'', ''stats'', ''--period'', period,
                                     ''--format'', ''json''] (Suc t)) (\<lambda>(parsed, t').
               case parsed of
                 Some stats \<Rightarrow>
                   try_bind (fill_period_stats period start_time end_time stats)
                     (\<lambda>r. Inr (r, t'))
               | None \<Rightarrow> period_from_range e period start_time end_time t')
           else period_from_range e period start_time end_time (Suc t)))"

section \<open>The main function\<close>

text \<open>
  The parsed command line: \<^verbatim>\<open>--verbose\<close> and \<^verbatim>\<open>--days N\<close> (\<open>None\<close> when the flag is
  absent). \<open>main_stats\<close> is \<^verbatim>\<open>main\<close> up to the four arguments of
  \<^verbatim>\<open>print_usage_report\<close>; the text of the report is not modelled.
  \<^verbatim>\<open>
  current_stats = get_current_session_stats()
  if args.days:
      now = datetime.now()
      start_time = now - timedelta(days=args.days)
      period_stats = get_time_period_stats(f"last {args.days} days", start_time, now)
      daily_stats = weekly_stats = monthly_stats = period_stats
  else:
      daily_stats = get_time_period_stats("daily")
      weekly_stats = get_time_period_stats("weekly")
      monthly_stats = get_time_period_stats("monthly")
  \<close>
\<close>

record args =
  verbose :: bool
  days :: "int option"

definition standard_periods :: "env \<Rightarrow> nat \<Rightarrow> exn + ((json \<times> json \<times> json) \<times> nat)" where
  "standard_periods e t =
     try_bind (get_time_period_stats e ''daily'' None None t) (\<lambda>(daily_stats, t1).
     try_bind (get_time_period_stats e ''weekly'' None None t1) (\<lambda>(weekly_stats, t2).
     try_bind (get_time_period_stats e ''monthly'' None None t2) (\<lambda>(monthly_stats, t3).
       Inr ((daily_stats, weekly_stats, monthly_stats), t3))))"

definition custom_period :: "env \<Rightarrow> int \<Rightarrow> nat \<Rightarrow> exn + ((json \<times> json \<times> json) \<times> nat)" where
  "custom_period e n t =
     (let now = clock e t
      in try_bind (timedelta_days n) (\<lambda>delta.
         try_bind (dt_sub now delta) (\<lambda>start_time.
         try_bind (get_time_period_stats e (''last '' @ str_int n @ '' days'')
                     (Some start_time) (Some now) (Suc t)) (\<lambda>(period_stats, t').
           Inr ((period_stats, period_stats, period_stats), t')))))"

text \<open>\<^verbatim>\<open>if args.days:\<close> is false for \<^verbatim>\<open>None\<close> and for \<^verbatim>\<open>0\<close>.\<close>

definition main_stats ::
  "env \<Rightarrow> args \<Rightarrow> nat \<Rightarrow> exn + ((json \<times> json \<times> json \<times> json) \<times> nat)"
where
  "main_stats e a t =
     try_bind (get_current_session_stats e t) (\<lambda>(current_stats, t1).
     try_bind (case days a of
                 Some n \<Rightarrow> if n \<noteq> 0 then custom_period e n t1 else standard_periods e t1
               | None \<Rightarrow> standard_periods e t1) (\<lambda>(periods, t2).
       Inr ((current_stats, periods), t2)))"



section \<open>Notions used in the statements\<close>

text \<open>
  A fetch fails when \<^verbatim>\<open>run_command\<close> returns and either the success flag is false or
  the output is not JSON: \<^verbatim>\<open>json.loads\<close> raises \<^verbatim>\<open>JSONDecodeError\<close>.
\<close>

definition call_fails :: "env \<Rightarrow> string list \<Rightarrow> nat \<Rightarrow> bool" where
  "call_fails e command t =
     (case run_command e command t of
        Inr ((out, success), t') \<Rightarrow> \<not> success \<or> json_loads e out = Inl JSONDecodeError
      | Inl x \<Rightarrow> False)"

text \<open>
  A fetch answers when \<^verbatim>\<open>run_command\<close> returns with a true success flag and
  \<^verbatim>\<open>json.loads\<close> returns a value: the caller then works on that value. A fetch that
  neither answers nor fails raises.
\<close>

definition call_answers :: "env \<Rightarrow> string list \<Rightarrow> nat \<Rightarrow> bool" where
  "call_answers e command t =
     (case run_command e command t of
        Inr ((out, success), t') \<Rightarrow> success \<and> \<not> isl (json_loads e out)
      | Inl x \<Rightarrow> False)"

text \<open>Every \<^verbatim>\<open>claude stats\<close> query and every \<^verbatim>\<open>claude logs\<close> listing fails.\<close>

definition stats_and_logs_fail :: "env \<Rightarrow> bool" where
  "stats_and_logs_fail e =
     (\<forall>t rest. call_fails e (''claude'' # ''stats'' # rest) t \<and>
               call_fails e (''claude'' # ''logs'' # rest) t)"

text \<open>The clock shows a time from 1970-01-01 on that a \<^verbatim>\<open>datetime\<close> can hold.\<close>

definition clock_sane :: "env \<Rightarrow> bool" where
  "clock_sane e = (\<forall>n. 719162 * US_PER_DAY \<le> clock e n \<and> clock e n < MAX_ORDINAL * US_PER_DAY)"

text \<open>
  The timestamps that a stats object holds: its fields other than the period label, the
  token counts and the cost, when they are not null.
\<close>

definition stats_timestamps :: "json \<Rightarrow> (string \<times> json) list" where
  "stats_timestamps r =
     (case r of
        JDict kvs \<Rightarrow>
          filter (\<lambda>kv. fst kv \<notin> set [''period'', ''input_tokens'', ''output_tokens'',
                                       ''total_tokens'', ''cost''] \<and> snd kv \<noteq> JNull) kvs
      | _ \<Rightarrow> [])"

text \<open>
  The field \<^verbatim>\<open>total_tokens\<close> of a stats object is the sum of its fields
  \<^verbatim>\<open>input_tokens\<close> and \<^verbatim>\<open>output_tokens\<close>, a missing one counting as 0 as in
  \<^verbatim>\<open>stats.get("input_tokens", 0)\<close>.
\<close>

definition field_or_zero :: "(string \<times> json) list \<Rightarrow> string \<Rightarrow> json" where
  "field_or_zero kvs k = (case map_of kvs k of None \<Rightarrow> JInt 0 | Some v \<Rightarrow> v)"

definition total_is_sum :: "json \<Rightarrow> bool" where
  "total_is_sum r =
     (case r of
        JDict kvs \<Rightarrow>
          (case map_of kvs ''total_tokens'' of
             Some v \<Rightarrow>
               py_add (field_or_zero kvs ''input_tokens'') (field_or_zero kvs ''output_tokens'')
                 = Inr v
           | None \<Rightarrow> False)
      | _ \<Rightarrow> False)"

text \<open>
  The timestamp of a log entry as the parser reads it: the entry is a dict whose
  \<^verbatim>\<open>timestamp\<close> is a string, and \<^verbatim>\<open>fromisoformat\<close> accepts the string without its
  \<^verbatim>\<open>Z\<close>.
\<close>

definition parsed_timestamp :: "env \<Rightarrow> json \<Rightarrow> pydt option" where
  "parsed_timestamp e entry =
     (case entry of
        JDict kvs \<Rightarrow>
          (case map_of kvs ''timestamp'' of
             Some (JStr text) \<Rightarrow> fromisoformat e (filter (\<lambda>c. c \<noteq> CHR ''Z'') text)
           | _ \<Rightarrow> None)
      | _ \<Rightarrow> None)"

text \<open>The entry has a timestamp strictly before the start or strictly after the end.\<close>

definition outside_window :: "env \<Rightarrow> int \<Rightarrow> int \<Rightarrow> json \<Rightarrow> bool" where
  "outside_window e start_time end_time entry =
     (case parsed_timestamp e entry of
        Some (Naive t) \<Rightarrow> t < start_time \<or> end_time < t
      | _ \<Rightarrow> False)"

text \<open>The entry has a timestamp \<open>t\<close> with \<open>start_time \<le> t \<le> end_time\<close>.\<close>

definition inside_window :: "env \<Rightarrow> int \<Rightarrow> int \<Rightarrow> json \<Rightarrow> bool" where
  "inside_window e start_time end_time entry =
     (case parsed_timestamp e entry of
        Some (Naive t) \<Rightarrow> start_time \<le> t \<and> t \<le> end_time
      | _ \<Rightarrow> False)"

text \<open>
  The timestamp of the entry is a non-empty string that \<^verbatim>\<open>fromisoformat\<close> rejects, with
  or without a \<^verbatim>\<open>Z\<close>.
\<close>

definition malformed_timestamp :: "env \<Rightarrow> (string \<times> json) list \<Rightarrow> bool" where
  "malformed_timestamp e kvs =
     (case map_of kvs ''timestamp'' of
        Some (JStr text) \<Rightarrow>
          text \<noteq> [] \<and> fromisoformat e (filter (\<lambda>c. c \<noteq> CHR ''Z'') text) = None
      | _ \<Rightarrow> False)"

text \<open>
  The two rates as rational numbers, and the cost in exact arithmetic with these rates.
\<close>

definition rate_in :: rat where
  "rate_in = 1080863910568919 / 36028797018963968"

definition rate_out :: rat where
  "rate_out = 5404319552844595 / 36028797018963968"

definition exact_cost :: "int \<Rightarrow> int \<Rightarrow> rat" where
  "exact_cost a b = of_int a / 1000 * rate_in + of_int b / 1000 * rate_out"

text \<open>The largest finite binary64 number, and the first integer whose thousandth
  rounds beyond it.\<close>

definition MAX_FLOAT :: rat where
  "MAX_FLOAT = 2 ^ 1024 - 2 ^ 971"

definition TOKEN_LIMIT :: int where
  "TOKEN_LIMIT = 1000 * (2 ^ 1024 - 2 ^ 970)"

text \<open>
  The spec's formula, \<open>(input_tokens/1000) \<times> rate_in + (output_tokens/1000) \<times> rate_out\<close>, read
  in binary64 arithmetic: each division, product and sum is rounded, and nothing raises.
\<close>

definition spec_cost :: "int \<Rightarrow> int \<Rightarrow> pyfloat" where
  "spec_cost a b =
     fadd (fmul (fround (of_int a / 1000)) COST_PER_1K_INPUT_TOKENS)
          (fmul (fround (of_int b / 1000)) COST_PER_1K_OUTPUT_TOKENS)"

text \<open>
  The unit roundoff of binary64, and the relation "\<open>y\<close> is \<open>x\<close> after at most \<open>n\<close>
  roundings": the relative error of each rounding is at most the unit roundoff.
\<close>

definition unit_roundoff :: rat where
  "unit_roundoff = 1 / 2 ^ 53"

definition rounded :: "nat \<Rightarrow> rat \<Rightarrow> rat \<Rightarrow> bool" where
  "rounded n x y =
     (x * (1 - unit_roundoff) ^ n \<le> y \<and> y \<le> x * (1 + unit_roundoff) ^ n)"

section \<open>Example environments\<close>

text \<open>The second word of a command line: \<^verbatim>\<open>stats\<close>, \<^verbatim>\<open>logs\<close> or \<^verbatim>\<open>--version\<close>.\<close>

definition subcommand :: "string list \<Rightarrow> string" where
  "subcommand command = (case command of _ # w # _ \<Rightarrow> w | _ \<Rightarrow> [])"

text \<open>The clock of the examples: 2024-06-15T12:00:00, a Saturday.\<close>

definition noon :: int where
  "noon = 63854049600000000"

text \<open>No \<^verbatim>\<open>claude\<close> executable is installed: every launch raises.\<close>

definition env_no_claude :: env where
  "env_no_claude =
     \<lparr>spawn = (\<lambda>t command. Raised FileNotFoundError),
      clock = (\<lambda>t. noon),
      json_loads = (\<lambda>text. Inl JSONDecodeError),
      fromisoformat = (\<lambda>text. None),
      strftime_ymd = (\<lambda>t. ''2024-06-15''),
      config_file = (\<lambda>path. Missing)\<rparr>"

text \<open>Every command exits with code 1.\<close>

definition env_failing :: env where
  "env_failing =
     \<lparr>spawn = (\<lambda>t command. Exited 1 [] ''not logged in''),
      clock = (\<lambda>t. noon),
      json_loads = (\<lambda>text. Inl JSONDecodeError),
      fromisoformat = (\<lambda>text. None),
      strftime_ymd = (\<lambda>t. ''2024-06-15''),
      config_file = (\<lambda>path. Missing)\<rparr>"

text \<open>
  The \<^verbatim>\<open>stats\<close> subcommand answers with an object whose \<^verbatim>\<open>total_tokens\<close> is not the sum
  of the two counts; the other commands exit with code 1.
\<close>

definition stats_text :: string where
  \<open>stats_text =
     ''{"input_tokens": 5, "output_tokens": 3, "total_tokens": 100, "session_start": "2024-06-15T11:00:00"}''\<close>

definition stats_value :: json where
  "stats_value =
     JDict [(''input_tokens'', JInt 5), (''output_tokens'', JInt 3),
            (''total_tokens'', JInt 100), (''session_start'', JStr ''2024-06-15T11:00:00'')]"

definition env_stats :: env where
  "env_stats =
     \<lparr>spawn = (\<lambda>t command.
        if subcommand command = ''stats'' then Exited 0 stats_text [] else Exited 1 [] []),
      clock = (\<lambda>t. noon),
      json_loads = (\<lambda>text. if text = stats_text then Inr stats_value else Inl JSONDecodeError),
      fromisoformat = (\<lambda>text. None),
      strftime_ymd = (\<lambda>t. ''2024-06-15''),
      config_file = (\<lambda>path. Missing)\<rparr>"

text \<open>
  The \<^verbatim>\<open>stats\<close> subcommand exits with code 1 and the \<^verbatim>\<open>logs\<close> subcommand lists three
  entries: one of 11:30 on the same day, written with a \<^verbatim>\<open>Z\<close>, one of the day before,
  and one whose timestamp is not a date.
\<close>

definition logs_text :: string where
  \<open>logs_text =
     ''[{"timestamp": "2024-06-15T11:30:00Z", "tokens": {"prompt": 10, "completion": 20}}, '' @
     ''{"timestamp": "2024-06-14T09:00:00", "tokens": {"prompt": 100, "completion": 200}}, '' @
     ''{"timestamp": "yesterday", "tokens": {"prompt": 1000, "completion": 2000}}]''\<close>

definition tokens_value :: "int \<Rightarrow> int \<Rightarrow> json" where
  "tokens_value p c = JDict [(''prompt'', JInt p), (''completion'', JInt c)]"

definition entry_today :: json where
  "entry_today =
     JDict [(''timestamp'', JStr ''2024-06-15T11:30:00Z''), (''tokens'', tokens_value 10 20)]"

definition entry_day_before :: json where
  "entry_day_before =
     JDict [(''timestamp'', JStr ''2024-06-14T09:00:00''), (''tokens'', tokens_value 100 200)]"

definition entry_malformed :: json where
  "entry_malformed =
     JDict [(''timestamp'', JStr ''yesterday''), (''tokens'', tokens_value 1000 2000)]"

definition env_logs :: env where
  "env_logs =
     \<lparr>spawn = (\<lambda>t command.
        if subcommand command = ''logs'' then Exited 0 logs_text [] else Exited 1 [] []),
      clock = (\<lambda>t. noon),
      json_loads = (\<lambda>text.
        if text = logs_text then Inr (JList [entry_today, entry_day_before, entry_malformed])
        else Inl JSONDecodeError),
      fromisoformat = (\<lambda>text.
        if text = ''2024-06-15T11:30:00'' then Some (Naive 63854047800000000)
        else if text = ''2024-06-14T09:00:00'' then Some (Naive 63853952400000000)
        else None),
      strftime_ymd = (\<lambda>t. ''2024-06-15''),
      config_file = (\<lambda>path. Missing)\<rparr>"

text \<open>
  The \<^verbatim>\<open>stats\<close> subcommand exits with code 1 and the \<^verbatim>\<open>logs\<close> subcommand lists two
  entries: the one of 11:30 on the same day, and one whose timestamp is a number, the
  seconds since 1970 of the same moment.
\<close>

definition logs_epoch_text :: string where
  \<open>logs_epoch_text =
     ''[{"timestamp": "2024-06-15T11:30:00Z", "tokens": {"prompt": 10, "completion": 20}}, '' @
     ''{"timestamp": 1718451000, "tokens": {"prompt": 1, "completion": 2}}]''\<close>

definition entry_epoch :: json where
  "entry_epoch = JDict [(''timestamp'', JInt 1718451000), (''tokens'', tokens_value 1 2)]"

definition env_epoch :: env where
  "env_epoch =
     \<lparr>spawn = (\<lambda>t command.
        if subcommand command = ''logs'' then Exited 0 logs_epoch_text [] else Exited 1 [] []),
      clock = (\<lambda>t. noon),
      json_loads = (\<lambda>text.
        if text = logs_epoch_text then Inr (JList [entry_today, entry_epoch])
        else Inl JSONDecodeError),
      fromisoformat = (\<lambda>text.
        if text = ''2024-06-15T11:30:00'' then Some (Naive 63854047800000000) else None),
      strftime_ymd = (\<lambda>t. ''2024-06-15''),
      config_file = (\<lambda>path. Missing)\<rparr>"



section \<open>Basic facts about the model\<close>

lemma try_bind_Inl [simp]: "try_bind (Inl x) f = Inl x"
  by (simp add: try_bind_def)

lemma try_bind_Inr [simp]: "try_bind (Inr v) f = f v"
  by (simp add: try_bind_def)

lemma try_bind_eq_Inr:
  "try_bind m f = Inr r \<longleftrightarrow> (\<exists>v. m = Inr v \<and> f v = Inr r)"
  by (cases m) simp_all

declare str_nat.simps [simp del]

lemma subcommand_simps [simp]:
  "subcommand (a # b # rest) = b"
  by (simp add: subcommand_def)

lemma get_update_other:
  "k \<noteq> k' \<Longrightarrow> py_get (JDict (AList.update k' v kvs)) k d = py_get (JDict kvs) k d"
  by (simp add: update_conv')

lemma get_update_same:
  "py_get (JDict (AList.update k v kvs)) k d = Inr v"
  by (simp add: update_conv')

section \<open>Command runner\<close>

lemma run_command_cases:
  "run_command e command t =
     (case spawn e t command of
        Exited rc out err \<Rightarrow>
          if rc = 0 then Inr ((out, True), Suc t) else Inr ((''Error: '' @ err, False), Suc t)
      | Raised x \<Rightarrow>
          (case x of
             CalledProcessError err \<Rightarrow> Inr ((''Error: '' @ err, False), Suc t)
           | _ \<Rightarrow> Inl x))"
  by (simp add: run_command_def subprocess_run_def split: proc_outcome.splits exn.splits)

lemma run_command_tick:
  "run_command e command t = Inr (r, t') \<Longrightarrow> t' = Suc t"
  by (auto simp add: run_command_cases split: proc_outcome.splits exn.splits if_splits)

lemma call_fails_fetch:
  "call_fails e command t \<Longrightarrow> JSONDecodeError \<in> set caught \<Longrightarrow>
   fetch_json e caught command t = Inr (None, Suc t)"
  by (cases "run_command e command t")
     (auto simp add: call_fails_def fetch_json_def dest: run_command_tick)

lemma fetch_json_Some:
  assumes "fetch_json e caught command t = Inr (Some v, t')"
  shows "call_answers e command t"
  using assms
  by (cases "run_command e command t")
     (auto simp add: call_answers_def fetch_json_def split: if_splits sum.splits)

text \<open>
  An exception of \<^verbatim>\<open>json.loads\<close> that the \<^verbatim>\<open>except\<close> clause does not list leaves the
  fetch: a \<^verbatim>\<open>ValueError\<close> or a \<^verbatim>\<open>RecursionError\<close> is not a \<^verbatim>\<open>JSONDecodeError\<close>.
\<close>

lemma fetch_json_uncaught:
  assumes "run_command e command t = Inr ((out, True), t')"
    and "json_loads e out = Inl x" and "x \<notin> set caught"
  shows "fetch_json e caught command t = Inl x"
  using assms by (simp add: fetch_json_def)

text \<open>
  A non-zero exit status is turned into a pair with a false flag, as the source's
  \<^verbatim>\<open>except subprocess.CalledProcessError\<close> does.
\<close>

lemma run_command_nonzero_exit:
  "spawn e t command = Exited rc out err \<Longrightarrow> rc \<noteq> 0 \<Longrightarrow>
   run_command e command t = Inr ((''Error: '' @ err, False), Suc t)"
  by (simp add: run_command_cases)

text \<open>
  C2. The claim is that \<^verbatim>\<open>run_command\<close> never raises, also when the executable is absent.
  The source catches \<^verbatim>\<open>CalledProcessError\<close> only: where no \<^verbatim>\<open>claude\<close> executable is
  installed, \<^verbatim>\<open>subprocess.run\<close> raises \<^verbatim>\<open>FileNotFoundError\<close> and \<^verbatim>\<open>run_command\<close> lets
  it through instead of returning an error string and a false flag.
\<close>

theorem run_command_raises_when_executable_missing:
  "run_command env_no_claude [''claude'', ''--version''] 0 = Inl FileNotFoundError"
  by (simp add: run_command_cases env_no_claude_def)

section \<open>Command line\<close>

text \<open>
  C10. With \<^verbatim>\<open>--days 0\<close> the program computes what it computes without the flag: the
  current session, then the daily, the weekly and the monthly window of
  \<open>standard_periods\<close>, and no custom window.
\<close>

theorem days_zero_like_absent:
  "main_stats e (a\<lparr>days := Some 0\<rparr>) t = main_stats e (a\<lparr>days := None\<rparr>) t \<and>
   main_stats e (a\<lparr>days := Some 0\<rparr>) t =
     try_bind (get_current_session_stats e t) (\<lambda>(current_stats, t1).
     try_bind (standard_periods e t1) (\<lambda>(periods, t2).
       Inr ((current_stats, periods), t2)))"
  by (simp add: main_stats_def)

section \<open>Configuration display\<close>







section \<open>Rounding\<close>

lemma of_int_bitlen_bounds:
  assumes "0 < p"
  shows "(2::rat) powi (bitlen p - 1) \<le> of_int p" and "of_int p < (2::rat) powi (bitlen p)"
proof -
  from assms have b1: "1 \<le> bitlen p"
    using bitlen_eq_zero_iff [of p] bitlen_nonneg [of p] by linarith
  from bitlen_bounds [OF assms]
  have lo: "2 ^ nat (bitlen p - 1) \<le> p" and hi: "p < 2 ^ nat (bitlen p)" by simp_all
  have "(of_int (2 ^ nat (bitlen p - 1)) :: rat) \<le> of_int p"
    using lo by (simp only: of_int_le_iff)
  then show "(2::rat) powi (bitlen p - 1) \<le> of_int p"
    using b1 by (simp add: power_int_def)
  have "(of_int p :: rat) < of_int (2 ^ nat (bitlen p))"
    using hi by (simp only: of_int_less_iff)
  then show "of_int p < (2::rat) powi (bitlen p)"
    using b1 by (simp add: power_int_def)
qed

lemma ilog2_bounds:
  assumes "x \<noteq> 0"
  shows "2 powi (ilog2 x) \<le> \<bar>x\<bar>" and "\<bar>x\<bar> < 2 powi (ilog2 x + 1)"
proof -
  obtain p q where pq: "quotient_of \<bar>x\<bar> = (p, q)" by (cases "quotient_of \<bar>x\<bar>")
  have q: "0 < q" using pq by (rule quotient_of_denom_pos)
  have x: "\<bar>x\<bar> = of_int p / of_int q" using pq by (rule quotient_of_div)
  have "0 < \<bar>x\<bar>" using assms by simp
  then have p: "0 < p" using x q by (simp add: zero_less_divide_iff)
  define k where "k = bitlen p - bitlen q"
  note bp = of_int_bitlen_bounds [OF p] and bq = of_int_bitlen_bounds [OF q]
  have qpos: "(0::rat) < of_int q" using q by simp
  have "\<bar>x\<bar> * of_int q < (2::rat) powi (bitlen p)" using bp(2) x qpos by simp
  also have "\<dots> = 2 powi (k + 1) * 2 powi (bitlen q - 1)"
    by (simp add: k_def flip: power_int_add)
  also have "\<dots> \<le> 2 powi (k + 1) * of_int q"
    using bq(1) by (simp add: mult_left_mono)
  finally have up: "\<bar>x\<bar> < 2 powi (k + 1)" using qpos by simp
  have "(2::rat) powi (k - 1) * of_int q < 2 powi (k - 1) * 2 powi (bitlen q)"
    using bq(2) by (simp add: mult_strict_left_mono)
  also have "\<dots> = 2 powi (bitlen p - 1)"
    by (simp add: k_def flip: power_int_add)
  also have "\<dots> \<le> \<bar>x\<bar> * of_int q" using bp(1) x qpos by simp
  finally have lo: "2 powi (k - 1) < \<bar>x\<bar>" using qpos by simp
  have il: "ilog2 x = (if 2 powi k \<le> \<bar>x\<bar> then k else k - 1)"
    by (simp add: ilog2_def pq k_def Let_def)
  show "2 powi (ilog2 x) \<le> \<bar>x\<bar>" using lo by (simp add: il)
  show "\<bar>x\<bar> < 2 powi (ilog2 x + 1)" using up by (auto simp add: il)
qed

lemma pow2_less_cancel:
  assumes "(2::rat) powi m < 2 powi n"
  shows "m < n"
proof (rule ccontr)
  assume "\<not> m < n"
  then have "n \<le> m" by simp
  then have "(2::rat) powi n \<le> 2 powi m"
    by (rule power_int_increasing) simp
  with assms show False by simp
qed

lemma ilog2_eqI:
  assumes "2 powi k \<le> \<bar>x\<bar>" and "\<bar>x\<bar> < 2 powi (k + 1)"
  shows "ilog2 x = k"
proof -
  have "(0::rat) < 2 powi k" by simp
  then have "0 < \<bar>x\<bar>" using assms(1) by linarith
  then have nz: "x \<noteq> 0" by simp
  note b = ilog2_bounds [OF nz]
  have "(2::rat) powi k < 2 powi (ilog2 x + 1)" using assms(1) b(2) by simp
  then have 1: "k < ilog2 x + 1" by (rule pow2_less_cancel)
  have "(2::rat) powi (ilog2 x) < 2 powi (k + 1)" using assms(2) b(1) by simp
  then have 2: "ilog2 x < k + 1" by (rule pow2_less_cancel)
  from 1 2 show ?thesis by simp
qed

lemma ilog2_less:
  assumes "x \<noteq> 0" and "\<bar>x\<bar> < 2 powi k"
  shows "ilog2 x < k"
proof -
  have "(2::rat) powi (ilog2 x) < 2 powi k"
    using ilog2_bounds(1) [OF assms(1)] assms(2) by simp
  then show ?thesis by (rule pow2_less_cancel)
qed

lemma floor_rat_numeral:
  "\<lfloor>(numeral a / numeral b :: rat)\<rfloor> = numeral a div numeral b"
  using floor_divide_of_int_eq [of "numeral a" "numeral b", where ?'a = rat] by simp

lemma round_half_even_bounds:
  "of_int (round_half_even q) \<le> q + 1 / 2 \<and> q - 1 / 2 \<le> of_int (round_half_even q)"
proof -
  define f where "f = \<lfloor>q\<rfloor>"
  have f1: "of_int f \<le> q" and f2: "q < of_int f + 1"
    using floor_correct [of q] by (simp_all add: f_def)
  consider (lo) "q - of_int f < 1 / 2" | (hi) "1 / 2 < q - of_int f" | (tie) "q - of_int f = 1 / 2"
    by linarith
  then show ?thesis
  proof cases
    case lo
    then have "round_half_even q = f" by (simp add: round_half_even_def f_def)
    then show ?thesis using lo f1 by simp
  next
    case hi
    then have "round_half_even q = f + 1" by (simp add: round_half_even_def f_def)
    then show ?thesis using hi f2 by simp
  next
    case tie
    then have "round_half_even q = f \<or> round_half_even q = f + 1"
      by (simp add: round_half_even_def f_def Let_def)
    then show ?thesis using tie by auto
  qed
qed

lemma round_half_even_of_int [simp]: "round_half_even (of_int n) = n"
  by (simp add: round_half_even_def)

lemma round_half_even_le:
  assumes "q \<le> of_int n"
  shows "round_half_even q \<le> n"
proof -
  have "(of_int (round_half_even q) :: rat) \<le> of_int n + 1 / 2"
    using round_half_even_bounds [of q] assms by linarith
  then have "(of_int (round_half_even q) :: rat) < of_int (n + 1)" by simp
  then have "round_half_even q < n + 1" by (simp only: of_int_less_iff)
  then show ?thesis by simp
qed

lemma round_half_even_ge:
  assumes "of_int n \<le> q"
  shows "n \<le> round_half_even q"
proof -
  have "(of_int n :: rat) - 1 / 2 \<le> of_int (round_half_even q)"
    using round_half_even_bounds [of q] assms by linarith
  then have "(of_int (n - 1) :: rat) < of_int (round_half_even q)" by simp
  then have "n - 1 < round_half_even q" by (simp only: of_int_less_iff)
  then show ?thesis by simp
qed

lemma round_half_even_abs_le:
  assumes "\<bar>q\<bar> \<le> of_int n"
  shows "\<bar>round_half_even q\<bar> \<le> n"
proof -
  have "q \<le> of_int n" and "of_int (- n) \<le> q" using assms by auto
  then have "round_half_even q \<le> n" and "- n \<le> round_half_even q"
    by (simp_all only: round_half_even_le round_half_even_ge)
  then show ?thesis by simp
qed


lemma pow2_le_cancel:
  assumes "(2::rat) powi m \<le> 2 powi n"
  shows "m \<le> n"
proof (rule ccontr)
  assume "\<not> m \<le> n"
  then have "n < m" by simp
  then have "(2::rat) powi n < 2 powi m"
    by (rule power_int_strict_increasing) simp
  with assms show False by simp
qed

lemma round_to_ulp_zero [simp]: "round_to_ulp 0 = 0"
  by (simp add: round_to_ulp_def)

lemma round_to_ulp_unfold:
  assumes "x \<noteq> 0"
  shows "round_to_ulp x =
    of_int (round_half_even (x / 2 powi (max (ilog2 x) (- 1022) - 52))) *
      2 powi (max (ilog2 x) (- 1022) - 52)"
  using assms by (simp add: round_to_ulp_def Let_def)

lemma round_to_ulp_le_pow2:
  assumes "\<bar>x\<bar> \<le> 2 powi k" and "- 1022 \<le> k"
  shows "\<bar>round_to_ulp x\<bar> \<le> 2 powi k"
proof (cases "x = 0")
  case True
  then show ?thesis by simp
next
  case False
  define e where "e = max (ilog2 x) (- 1022)"
  define ulp :: rat where "ulp = 2 powi (e - 52)"
  have ulp_pos: "0 < ulp" by (simp add: ulp_def)
  have "(2::rat) powi (ilog2 x) \<le> 2 powi k"
    using ilog2_bounds(1) [OF False] assms(1) by simp
  then have "ilog2 x \<le> k" by (rule pow2_le_cancel)
  with assms(2) have ek: "e \<le> k" by (simp add: e_def)
  define n where "n = (2::int) ^ nat (k - e + 52)"
  have n: "(of_int n :: rat) = 2 powi (k - e + 52)"
    using ek by (simp add: n_def power_int_def)
  have "2 powi k = ulp * (2::rat) powi (k - e + 52)"
    by (simp add: ulp_def flip: power_int_add)
  then have k_eq: "2 powi k = of_int n * ulp" by (simp add: n)
  have "\<bar>x / ulp\<bar> = \<bar>x\<bar> / ulp" using ulp_pos by simp
  also have "\<dots> \<le> of_int n"
    using assms(1) ulp_pos by (simp add: k_eq pos_divide_le_eq)
  finally have "\<bar>round_half_even (x / ulp)\<bar> \<le> n" by (rule round_half_even_abs_le)
  then have "\<bar>(of_int (round_half_even (x / ulp)) :: rat)\<bar> \<le> of_int n"
    by (simp only: of_int_abs [symmetric] of_int_le_iff)
  then have "\<bar>(of_int (round_half_even (x / ulp)) :: rat)\<bar> * ulp \<le> of_int n * ulp"
    using ulp_pos by (simp add: mult_right_mono)
  moreover have "round_to_ulp x = of_int (round_half_even (x / ulp)) * ulp"
    using False by (simp add: round_to_ulp_unfold e_def ulp_def)
  ultimately show ?thesis
    using ulp_pos by (simp add: k_eq abs_mult)
qed

lemma round_to_ulp_nonneg:
  assumes "0 \<le> x"
  shows "0 \<le> round_to_ulp x"
proof (cases "x = 0")
  case True
  then show ?thesis by simp
next
  case False
  define ulp :: rat where "ulp = 2 powi (max (ilog2 x) (- 1022) - 52)"
  have ulp_pos: "0 < ulp" by (simp add: ulp_def)
  have "of_int 0 \<le> x / ulp" using assms ulp_pos by simp
  then have "0 \<le> round_half_even (x / ulp)" by (rule round_half_even_ge)
  then have "0 \<le> (of_int (round_half_even (x / ulp)) :: rat) * ulp"
    using ulp_pos by simp
  then show ?thesis using False by (simp add: round_to_ulp_unfold ulp_def)
qed

lemma round_to_ulp_error:
  assumes "2 powi (- 1022) \<le> \<bar>x\<bar>"
  shows "\<bar>round_to_ulp x - x\<bar> \<le> \<bar>x\<bar> / 2 ^ 53"
proof -
  have "(0::rat) < 2 powi (- 1022)" by simp
  then have "0 < \<bar>x\<bar>" using assms by linarith
  then have nz: "x \<noteq> 0" by simp
  define e where "e = ilog2 x"
  have "(2::rat) powi (- 1022) < 2 powi (e + 1)"
    using assms ilog2_bounds(2) [OF nz] by (simp add: e_def)
  then have "- 1022 < e + 1" by (rule pow2_less_cancel)
  then have e: "max (ilog2 x) (- 1022) = e" by (simp add: e_def)
  define ulp :: rat where "ulp = 2 powi (e - 52)"
  have ulp_pos: "0 < ulp" by (simp add: ulp_def)
  define m where "m = round_half_even (x / ulp)"
  have r: "round_to_ulp x = of_int m * ulp"
    using nz by (simp add: round_to_ulp_unfold e ulp_def m_def)
  have "\<bar>of_int m - x / ulp\<bar> \<le> 1 / 2"
    using round_half_even_bounds [of "x / ulp"] unfolding m_def by linarith
  then have "\<bar>of_int m - x / ulp\<bar> * ulp \<le> 1 / 2 * ulp"
    using ulp_pos by (simp only: mult_right_mono less_imp_le)
  moreover have "\<bar>of_int m - x / ulp\<bar> * ulp = \<bar>of_int m * ulp - x\<bar>"
  proof -
    have "\<bar>of_int m - x / ulp\<bar> * ulp = \<bar>(of_int m - x / ulp) * ulp\<bar>"
      using ulp_pos by (simp add: abs_mult)
    also have "(of_int m - x / ulp) * ulp = of_int m * ulp - x"
      using ulp_pos by (simp add: algebra_simps)
    finally show ?thesis .
  qed
  ultimately have err: "\<bar>round_to_ulp x - x\<bar> \<le> ulp / 2" by (simp add: r)
  have "ulp / 2 = 2 powi e / 2 ^ 53"
  proof -
    have "(2::rat) powi e = 2 powi (e - 52) * 2 ^ 52"
      using power_int_add [of "2::rat" "e - 52" 52] by simp
    then show ?thesis by (simp add: ulp_def)
  qed
  also have "\<dots> \<le> \<bar>x\<bar> / 2 ^ 53"
    using ilog2_bounds(1) [OF nz] by (simp add: e_def divide_right_mono)
  finally show ?thesis using err by linarith
qed

lemma MAX_FLOAT_less: "MAX_FLOAT < 2 powi 1024"
  by (simp add: MAX_FLOAT_def)

lemma round_to_ulp_below_limit:
  assumes "\<bar>x\<bar> < 2 ^ 1024 - 2 ^ 970"
  shows "\<bar>round_to_ulp x\<bar> \<le> MAX_FLOAT"
proof (cases "\<bar>x\<bar> \<le> 2 powi 1023")
  case True
  then have "\<bar>round_to_ulp x\<bar> \<le> 2 powi 1023"
    by (rule round_to_ulp_le_pow2) simp
  also have "(2::rat) powi 1023 \<le> MAX_FLOAT" by (simp add: MAX_FLOAT_def)
  finally show ?thesis .
next
  case False
  then have lo: "2 powi 1023 \<le> \<bar>x\<bar>" by simp
  have hi: "\<bar>x\<bar> < 2 powi (1023 + 1)" using assms by simp
  have il: "ilog2 x = 1023" using lo hi by (rule ilog2_eqI)
  have nz: "x \<noteq> 0" using lo by auto
  define ulp :: rat where "ulp = 2 ^ 971"
  have ulp_pos: "0 < ulp" by (simp add: ulp_def)
  define m where "m = round_half_even (x / ulp)"
  have r: "round_to_ulp x = of_int m * ulp"
    using nz by (simp add: round_to_ulp_unfold il ulp_def m_def)
  have "\<bar>x\<bar> / ulp < 2 ^ 53 - 1 / 2"
    using assms by (simp add: ulp_def pos_divide_less_eq)
  then have q: "\<bar>x / ulp\<bar> < 2 ^ 53 - 1 / 2" using ulp_pos by simp
  have "(of_int m :: rat) < 2 ^ 53" and "- (2 ^ 53) < (of_int m :: rat)"
    using round_half_even_bounds [of "x / ulp"] q unfolding m_def by linarith+
  then have "(of_int m :: rat) < of_int (2 ^ 53)" and "of_int (- (2 ^ 53)) < (of_int m :: rat)"
    by simp_all
  then have "m < 2 ^ 53" and "- (2 ^ 53) < m"
    by (simp_all only: of_int_less_iff)
  then have "\<bar>m\<bar> \<le> 2 ^ 53 - 1" by simp
  then have "\<bar>(of_int m :: rat)\<bar> \<le> of_int (2 ^ 53 - 1)"
    by (simp only: of_int_abs [symmetric] of_int_le_iff)
  then have "\<bar>(of_int m :: rat)\<bar> * ulp \<le> of_int (2 ^ 53 - 1) * ulp"
    using ulp_pos by (simp only: mult_right_mono less_imp_le)
  then show ?thesis
    using ulp_pos by (simp add: r abs_mult MAX_FLOAT_def ulp_def)
qed

lemma fround_finite:
  assumes "\<bar>round_to_ulp x\<bar> < 2 powi 1024"
  shows "fround x = Finite (round_to_ulp x)"
  using assms by (simp add: fround_def Let_def)

section \<open>Cost calculator: range and value\<close>

lemma COST_PER_1K_INPUT_TOKENS_eq: "COST_PER_1K_INPUT_TOKENS = Finite rate_in"
  by (simp add: COST_PER_1K_INPUT_TOKENS_def rate_in_def fround_def round_to_ulp_def
      ilog2_eqI [of "- 6"] round_half_even_def Let_def floor_rat_numeral)

lemma COST_PER_1K_OUTPUT_TOKENS_eq: "COST_PER_1K_OUTPUT_TOKENS = Finite rate_out"
  by (simp add: COST_PER_1K_OUTPUT_TOKENS_def rate_out_def fround_def round_to_ulp_def
      ilog2_eqI [of "- 3"] round_half_even_def Let_def floor_rat_numeral)

lemma calculate_cost_ints:
  "calculate_cost (JInt a) (JInt b) =
     try_bind (int_truediv a 1000) (\<lambda>qi.
     try_bind (int_truediv b 1000) (\<lambda>qo.
       Inr (fadd (fmul qi COST_PER_1K_INPUT_TOKENS) (fmul qo COST_PER_1K_OUTPUT_TOKENS))))"
  by (simp add: calculate_cost_def py_truediv_def Let_def)

lemma int_truediv_fround:
  "int_truediv a 1000 = (case fround (of_int a / 1000) of Finite r \<Rightarrow> Inr (Finite r) | _ \<Rightarrow> Inl OverflowError)"
  by (simp add: int_truediv_def)

lemma quotient_below_limit:
  assumes "\<bar>a\<bar> < TOKEN_LIMIT"
  shows "\<bar>(of_int a :: rat) / 1000\<bar> < 2 ^ 1024 - 2 ^ 970"
proof -
  have "(of_int \<bar>a\<bar> :: rat) < of_int TOKEN_LIMIT"
    using assms by (simp only: of_int_less_iff)
  then have "\<bar>(of_int a :: rat)\<bar> < 1000 * (2 ^ 1024 - 2 ^ 970)"
    by (simp add: TOKEN_LIMIT_def)
  then show ?thesis by simp
qed

lemma fround_quotient:
  assumes "\<bar>a\<bar> < TOKEN_LIMIT"
  shows "fround (of_int a / 1000) = Finite (round_to_ulp (of_int a / 1000))"
    and "\<bar>round_to_ulp (of_int a / 1000)\<bar> \<le> MAX_FLOAT"
proof -
  show m: "\<bar>round_to_ulp (of_int a / 1000)\<bar> \<le> MAX_FLOAT"
    using quotient_below_limit [OF assms] by (rule round_to_ulp_below_limit)
  then have "\<bar>round_to_ulp (of_int a / 1000)\<bar> < 2 powi 1024"
    using MAX_FLOAT_less by linarith
  then show "fround (of_int a / 1000) = Finite (round_to_ulp (of_int a / 1000))"
    by (rule fround_finite)
qed

lemma fround_product:
  assumes "\<bar>x\<bar> \<le> MAX_FLOAT" and "0 \<le> r" and "r \<le> 1 / 4"
  shows "fround (x * r) = Finite (round_to_ulp (x * r))"
    and "\<bar>round_to_ulp (x * r)\<bar> \<le> 2 powi 1022"
proof -
  have "\<bar>x * r\<bar> = \<bar>x\<bar> * r" using assms(2) by (simp add: abs_mult)
  also have "\<dots> \<le> MAX_FLOAT * (1 / 4)"
    using assms by (intro mult_mono) (simp_all add: MAX_FLOAT_def)
  also have "\<dots> \<le> 2 powi 1022" by (simp add: MAX_FLOAT_def)
  finally show m: "\<bar>round_to_ulp (x * r)\<bar> \<le> 2 powi 1022"
    by (rule round_to_ulp_le_pow2) simp
  have "(2::rat) powi 1022 < 2 powi 1024" by simp
  with m have "\<bar>round_to_ulp (x * r)\<bar> < 2 powi 1024" by linarith
  then show "fround (x * r) = Finite (round_to_ulp (x * r))"
    by (rule fround_finite)
qed

lemma fround_sum:
  assumes "\<bar>p\<bar> \<le> 2 powi 1022" and "\<bar>q\<bar> \<le> 2 powi 1022"
  shows "fround (p + q) = Finite (round_to_ulp (p + q))"
proof -
  have "\<bar>p + q\<bar> \<le> 2 powi 1022 + 2 powi 1022" using assms by linarith
  also have "\<dots> = (2::rat) powi 1023" by simp
  finally have "\<bar>round_to_ulp (p + q)\<bar> \<le> 2 powi 1023"
    by (rule round_to_ulp_le_pow2) simp
  moreover have "(2::rat) powi 1023 < 2 powi 1024" by simp
  ultimately have "\<bar>round_to_ulp (p + q)\<bar> < 2 powi 1024" by linarith
  then show ?thesis by (rule fround_finite)
qed

lemma rate_bounds:
  "0 \<le> rate_in" "rate_in \<le> 1 / 4" "0 \<le> rate_out" "rate_out \<le> 1 / 4"
  by (simp_all add: rate_in_def rate_out_def)

text \<open>The value of the cost for token counts below the limit, as a rational number.\<close>

lemma calculate_cost_value:
  assumes "\<bar>a\<bar> < TOKEN_LIMIT" and "\<bar>b\<bar> < TOKEN_LIMIT"
  shows "calculate_cost (JInt a) (JInt b) =
           Inr (Finite (round_to_ulp
             (round_to_ulp (round_to_ulp (of_int a / 1000) * rate_in) +
              round_to_ulp (round_to_ulp (of_int b / 1000) * rate_out))))"
    and "spec_cost a b =
           Finite (round_to_ulp
             (round_to_ulp (round_to_ulp (of_int a / 1000) * rate_in) +
              round_to_ulp (round_to_ulp (of_int b / 1000) * rate_out)))"
proof -
  note qa = fround_quotient [OF assms(1)] and qb = fround_quotient [OF assms(2)]
  note pa = fround_product [OF qa(2) rate_bounds(1,2)]
    and pb = fround_product [OF qb(2) rate_bounds(3,4)]
  note s = fround_sum [OF pa(2) pb(2)]
  show "spec_cost a b =
           Finite (round_to_ulp
             (round_to_ulp (round_to_ulp (of_int a / 1000) * rate_in) +
              round_to_ulp (round_to_ulp (of_int b / 1000) * rate_out)))"
    by (simp add: spec_cost_def qa(1) qb(1) COST_PER_1K_INPUT_TOKENS_eq
        COST_PER_1K_OUTPUT_TOKENS_eq pa(1) pb(1) s)
  show "calculate_cost (JInt a) (JInt b) =
           Inr (Finite (round_to_ulp
             (round_to_ulp (round_to_ulp (of_int a / 1000) * rate_in) +
              round_to_ulp (round_to_ulp (of_int b / 1000) * rate_out))))"
    by (simp add: calculate_cost_ints int_truediv_fround qa(1) qb(1) COST_PER_1K_INPUT_TOKENS_eq
        COST_PER_1K_OUTPUT_TOKENS_eq pa(1) pb(1) s)
qed

lemma calculate_cost_zero: "calculate_cost (JInt 0) (JInt 0) = Inr (Finite 0)"
  using calculate_cost_value(1) [of 0 0] by (simp add: TOKEN_LIMIT_def)

lemma fround_limit: "fround (of_int TOKEN_LIMIT / 1000) = PosInf"
proof -
  define x :: rat where "x = 2 ^ 1024 - 2 ^ 970"
  have x: "(of_int TOKEN_LIMIT :: rat) / 1000 = x"
    by (simp add: TOKEN_LIMIT_def x_def)
  have pos: "0 < x" and nz: "x \<noteq> 0" by (simp_all add: x_def)
  have "2 powi 1023 \<le> \<bar>x\<bar>" and "\<bar>x\<bar> < 2 powi (1023 + 1)" by (simp_all add: x_def)
  then have il: "ilog2 x = 1023" by (rule ilog2_eqI)
  have q: "x / 2 powi (1023 - 52) = 18014398509481983 / 2"
    by (simp add: x_def)
  have m: "round_half_even (18014398509481983 / 2) = 9007199254740992"
    by (simp add: round_half_even_def Let_def floor_rat_numeral)
  have e: "max (ilog2 x) (- 1022) = 1023" by (simp add: il)
  have "round_to_ulp x =
      of_int (round_half_even (x / 2 powi (1023 - 52))) * 2 powi (1023 - 52)"
    using round_to_ulp_unfold [OF nz] unfolding e .
  then have "round_to_ulp x = of_int 9007199254740992 * 2 powi (1023 - 52)"
    unfolding q m .
  then have "round_to_ulp x = 2 powi 1024" by simp
  then show ?thesis
    unfolding x using pos by (simp only: fround_def Let_def) simp
qed

text \<open>
  C5, the counterexample. The claim gives \<^verbatim>\<open>calculate_cost\<close> no error case for any token
  counts. For \<open>1000 \<times> (2\<^sup>1\<^sup>0\<^sup>2\<^sup>4 - 2\<^sup>9\<^sup>7\<^sup>0)\<close> input tokens the quotient
  \<^verbatim>\<open>input_tokens / 1000\<close> rounds beyond the largest float, and the division raises
  \<^verbatim>\<open>OverflowError\<close>.
\<close>

theorem calculate_cost_overflow:
  "calculate_cost (JInt TOKEN_LIMIT) (JInt 0) = Inl OverflowError"
  by (simp add: calculate_cost_ints int_truediv_fround fround_limit)

text \<open>
  C5, as amended. For token counts of magnitude below \<open>1000 \<times> (2\<^sup>1\<^sup>0\<^sup>2\<^sup>4 - 2\<^sup>9\<^sup>7\<^sup>0)\<close>,
  \<^verbatim>\<open>calculate_cost\<close> raises nothing and returns the finite float that the formula
  \<open>(input_tokens/1000) \<times> rate_in + (output_tokens/1000) \<times> rate_out\<close> gives in binary64
  arithmetic; the result is a function of the two counts alone, and the cost of no tokens
  is 0.
\<close>

theorem calculate_cost_formula:
  assumes "\<bar>a\<bar> < TOKEN_LIMIT" and "\<bar>b\<bar> < TOKEN_LIMIT"
  shows "calculate_cost (JInt a) (JInt b) = Inr (spec_cost a b) \<and>
         (\<exists>r. spec_cost a b = Finite r) \<and>
         calculate_cost (JInt 0) (JInt 0) = Inr (Finite 0)"
  using calculate_cost_value [OF assms] calculate_cost_zero by simp

section \<open>Accumulated rounding error\<close>

lemma unit_roundoff_bounds: "0 < unit_roundoff" "unit_roundoff < 1"
  by (simp_all add: unit_roundoff_def)

lemma rounded_refl: "rounded 0 x x"
  by (simp add: rounded_def)

lemma rounded_scale:
  assumes "rounded n x y" and "0 \<le> c"
  shows "rounded n (x * c) (y * c)"
proof -
  from assms have "x * (1 - unit_roundoff) ^ n * c \<le> y * c"
    and "y * c \<le> x * (1 + unit_roundoff) ^ n * c"
    by (simp_all add: rounded_def mult_right_mono)
  then show ?thesis by (simp add: rounded_def mult.assoc mult.left_commute mult.commute)
qed

lemma rounded_add:
  assumes "rounded n x y" and "rounded n x' y'"
  shows "rounded n (x + x') (y + y')"
  using assms by (simp add: rounded_def distrib_right add_mono)

lemma rounded_mono:
  assumes "rounded n x y" and "0 \<le> x" and "n \<le> m"
  shows "rounded m x y"
proof -
  have lo: "(1 - unit_roundoff) ^ m \<le> (1 - unit_roundoff) ^ n"
    using assms(3) unit_roundoff_bounds by (intro power_decreasing) simp_all
  have hi: "(1 + unit_roundoff) ^ n \<le> (1 + unit_roundoff) ^ m"
    using assms(3) unit_roundoff_bounds by (intro power_increasing) simp_all
  have "x * (1 - unit_roundoff) ^ m \<le> x * (1 - unit_roundoff) ^ n"
    using lo assms(2) by (rule mult_left_mono)
  moreover have "x * (1 + unit_roundoff) ^ n \<le> x * (1 + unit_roundoff) ^ m"
    using hi assms(2) by (rule mult_left_mono)
  ultimately show ?thesis using assms(1) by (simp add: rounded_def)
qed

lemma rounded_half_double:
  assumes "rounded n x y" and "0 \<le> x" and "n \<le> 4"
  shows "x / 2 \<le> y" and "y \<le> 2 * x"
proof -
  have r: "rounded 4 x y" using assms by (rule rounded_mono)
  have "(1 / 2 :: rat) \<le> (1 - unit_roundoff) ^ 4" and "(1 + unit_roundoff) ^ 4 \<le> (2 :: rat)"
    by (simp_all add: unit_roundoff_def power_divide)
  then have "x * (1 / 2) \<le> x * (1 - unit_roundoff) ^ 4"
    and "x * (1 + unit_roundoff) ^ 4 \<le> x * 2"
    using assms(2) by (simp_all only: mult_left_mono)
  with r show "x / 2 \<le> y" and "y \<le> 2 * x" by (simp_all add: rounded_def)
qed

lemma rounded_round:
  assumes "rounded n x0 x" and "x0 = 0 \<or> 1 / 2 ^ 20 \<le> x0" and "n \<le> 3"
  shows "rounded (Suc n) x0 (round_to_ulp x)"
proof -
  have x0: "0 \<le> x0" using assms(2) by auto
  have n4: "n \<le> 4" using assms(3) by simp
  note hd = rounded_half_double [OF assms(1) x0 n4]
  show ?thesis
  proof (cases "x0 = 0")
    case True
    with hd have "x = 0" by simp
    with True show ?thesis by (simp add: rounded_def)
  next
    case False
    with assms(2) have "1 / 2 ^ 20 \<le> x0" by simp
    with hd(1) have big: "1 / 2 ^ 21 \<le> x" by simp
    then have xpos: "0 \<le> x" by simp
    have "(2::rat) powi (- 1022) \<le> 1 / 2 ^ 21" by (simp add: power_int_minus_divide)
    with big have "2 powi (- 1022) \<le> \<bar>x\<bar>" by linarith
    then have "\<bar>round_to_ulp x - x\<bar> \<le> \<bar>x\<bar> / 2 ^ 53" by (rule round_to_ulp_error)
    then have "\<bar>round_to_ulp x - x\<bar> \<le> x * unit_roundoff"
      using xpos by (simp add: unit_roundoff_def)
    then have "x - x * unit_roundoff \<le> round_to_ulp x"
      and "round_to_ulp x \<le> x + x * unit_roundoff"
      by linarith+
    then have lo: "x * (1 - unit_roundoff) \<le> round_to_ulp x"
      and hi: "round_to_ulp x \<le> x * (1 + unit_roundoff)"
      by (simp_all add: algebra_simps)
    have "x0 * (1 - unit_roundoff) ^ n * (1 - unit_roundoff) \<le> x * (1 - unit_roundoff)"
      using assms(1) unit_roundoff_bounds by (intro mult_right_mono) (simp_all add: rounded_def)
    moreover have "x * (1 + unit_roundoff) \<le> x0 * (1 + unit_roundoff) ^ n * (1 + unit_roundoff)"
      using assms(1) unit_roundoff_bounds by (intro mult_right_mono) (simp_all add: rounded_def)
    ultimately show ?thesis
      using lo hi unfolding rounded_def power_Suc2 mult.assoc by linarith
  qed
qed

lemma rounded_nonneg:
  assumes "rounded n x y" and "0 \<le> x"
  shows "0 \<le> y"
proof -
  have "0 \<le> x * (1 - unit_roundoff) ^ n"
    using assms(2) unit_roundoff_bounds by simp
  with assms(1) show ?thesis by (simp add: rounded_def)
qed

lemma quotient_big:
  assumes "0 \<le> a" and "1 / 2 ^ 20 \<le> r * (1 / 1000)"
  shows "of_int a / 1000 * r = 0 \<or> 1 / 2 ^ 20 \<le> (of_int a :: rat) / 1000 * r"
proof (cases "a = 0")
  case True
  then show ?thesis by simp
next
  case False
  with assms(1) have "1 \<le> a" by simp
  then have "(1::rat) \<le> of_int a" by simp
  moreover have "0 \<le> r * (1 / 1000)" using assms(2) by simp
  ultimately have "1 * (r * (1 / 1000)) \<le> of_int a * (r * (1 / 1000))"
    by (rule mult_right_mono)
  with assms(2) have "1 / 2 ^ 20 \<le> of_int a * (r * (1 / 1000))" by linarith
  moreover have "(of_int a :: rat) / 1000 * r = of_int a * (r * (1 / 1000))" by simp
  ultimately have "1 / 2 ^ 20 \<le> (of_int a :: rat) / 1000 * r" by (simp only:)
  then show ?thesis ..
qed

lemma rate_big:
  "1 / 2 ^ 20 \<le> (1::rat) * (1 / 1000)"
  "1 / 2 ^ 20 \<le> rate_in * (1 / 1000)"
  "1 / 2 ^ 20 \<le> rate_out * (1 / 1000)"
  by (simp_all add: rate_in_def rate_out_def)

lemma exact_cost_big:
  assumes "0 \<le> a" and "0 \<le> b"
  shows "exact_cost a b = 0 \<or> 1 / 2 ^ 20 \<le> exact_cost a b"
proof -
  note ba = quotient_big [OF assms(1) rate_big(2)] and bb = quotient_big [OF assms(2) rate_big(3)]
  have "0 \<le> (of_int a :: rat) / 1000 * rate_in" and "0 \<le> (of_int b :: rat) / 1000 * rate_out"
    using assms rate_bounds by simp_all
  with ba bb show ?thesis unfolding exact_cost_def by linarith
qed

text \<open>The computed cost of non-negative counts is the exact cost after three roundings.\<close>

lemma calculate_cost_rounded:
  assumes "0 \<le> a" and "a < TOKEN_LIMIT" and "0 \<le> b" and "b < TOKEN_LIMIT"
  obtains s where "calculate_cost (JInt a) (JInt b) = Inr (Finite s)"
    and "rounded 3 (exact_cost a b) s"
proof -
  define xa :: rat where "xa = of_int a / 1000"
  define xb :: rat where "xb = of_int b / 1000"
  define pa where "pa = round_to_ulp (round_to_ulp xa * rate_in)"
  define pb where "pb = round_to_ulp (round_to_ulp xb * rate_out)"
  have "rounded 1 xa (round_to_ulp xa)"
    using rounded_round [OF rounded_refl, of xa] quotient_big [OF assms(1) rate_big(1)]
    by (simp add: xa_def)
  then have "rounded 1 (xa * rate_in) (round_to_ulp xa * rate_in)"
    using rate_bounds(1) by (rule rounded_scale)
  then have "rounded (Suc 1) (xa * rate_in) pa"
    unfolding pa_def using quotient_big [OF assms(1) rate_big(2)]
    by (intro rounded_round) (simp_all add: xa_def)
  then have ra: "rounded 2 (xa * rate_in) pa" by (simp add: numeral_2_eq_2)
  have "rounded 1 xb (round_to_ulp xb)"
    using rounded_round [OF rounded_refl, of xb] quotient_big [OF assms(3) rate_big(1)]
    by (simp add: xb_def)
  then have "rounded 1 (xb * rate_out) (round_to_ulp xb * rate_out)"
    using rate_bounds(3) by (rule rounded_scale)
  then have "rounded (Suc 1) (xb * rate_out) pb"
    unfolding pb_def using quotient_big [OF assms(3) rate_big(3)]
    by (intro rounded_round) (simp_all add: xb_def)
  then have rb: "rounded 2 (xb * rate_out) pb" by (simp add: numeral_2_eq_2)
  have "rounded 2 (exact_cost a b) (pa + pb)"
    using rounded_add [OF ra rb] by (simp add: exact_cost_def xa_def xb_def)
  then have "rounded (Suc 2) (exact_cost a b) (round_to_ulp (pa + pb))"
    using exact_cost_big [OF assms(1,3)] by (intro rounded_round) simp_all
  then have r: "rounded 3 (exact_cost a b) (round_to_ulp (pa + pb))"
    by (simp add: numeral_3_eq_3)
  have "\<bar>a\<bar> < TOKEN_LIMIT" and "\<bar>b\<bar> < TOKEN_LIMIT" using assms by simp_all
  then have "calculate_cost (JInt a) (JInt b) = Inr (Finite (round_to_ulp (pa + pb)))"
    unfolding pa_def pb_def xa_def xb_def by (rule calculate_cost_value(1))
  then show ?thesis using r by (rule that)
qed

lemma exact_cost_add:
  "exact_cost (a + c) (b + d) = exact_cost a b + exact_cost c d"
  by (simp add: exact_cost_def algebra_simps add_divide_distrib)

lemma exact_cost_nonneg: "0 \<le> a \<Longrightarrow> 0 \<le> b \<Longrightarrow> 0 \<le> exact_cost a b"
  using rate_bounds by (simp add: exact_cost_def)

lemma exact_cost_below:
  assumes "0 \<le> a" and "a < TOKEN_LIMIT" and "0 \<le> b" and "b < TOKEN_LIMIT"
  shows "2 * exact_cost a b \<le> 2 powi 1023"
proof -
  have "(of_int a :: rat) \<le> of_int TOKEN_LIMIT" and "(of_int b :: rat) \<le> of_int TOKEN_LIMIT"
    using assms by simp_all
  then have "(of_int a :: rat) / 1000 \<le> 2 ^ 1024" and "(of_int b :: rat) / 1000 \<le> 2 ^ 1024"
    by (simp_all add: TOKEN_LIMIT_def)
  then have "(of_int a :: rat) / 1000 * rate_in \<le> 2 ^ 1024 * (1 / 16)"
    and "(of_int b :: rat) / 1000 * rate_out \<le> 2 ^ 1024 * (1 / 6)"
    using assms(1,3) by (intro mult_mono; simp add: rate_in_def rate_out_def)+
  then have "exact_cost a b \<le> 2 ^ 1024 * (1 / 16) + 2 ^ 1024 * (1 / 6)"
    unfolding exact_cost_def by (rule add_mono)
  also have "\<dots> \<le> 2 powi 1023 / 2" by simp
  finally show ?thesis by simp
qed

lemma roundoff_spread: "(1 + unit_roundoff) ^ 4 - (1 - unit_roundoff) ^ 4 \<le> 1 / 2 ^ 49"
  by (simp add: unit_roundoff_def power_divide)

text \<open>
  C6, as amended. For non-negative counts whose sums stay below the limit of C5, the
  three costs and the float sum of the two parts are finite, and
  \<^verbatim>\<open>calculate_cost(a + c, b + d)\<close> differs from
  \<^verbatim>\<open>calculate_cost(a, b) + calculate_cost(c, d)\<close> by at most \<open>2\<^sup>-\<^sup>4\<^sup>9\<close> times the exact
  cost; the exact cost is additive, and the cost of no tokens is 0.
\<close>

theorem calculate_cost_additive_up_to_rounding:
  assumes "0 \<le> a" and "0 \<le> b" and "0 \<le> c" and "0 \<le> d"
    and "a + c < TOKEN_LIMIT" and "b + d < TOKEN_LIMIT"
  shows "\<exists>x y z s.
           calculate_cost (JInt a) (JInt b) = Inr (Finite x) \<and>
           calculate_cost (JInt c) (JInt d) = Inr (Finite y) \<and>
           calculate_cost (JInt (a + c)) (JInt (b + d)) = Inr (Finite z) \<and>
           fadd (Finite x) (Finite y) = Finite s \<and>
           \<bar>z - s\<bar> \<le> exact_cost (a + c) (b + d) / 2 ^ 49 \<and>
           exact_cost (a + c) (b + d) = exact_cost a b + exact_cost c d \<and>
           calculate_cost (JInt 0) (JInt 0) = Inr (Finite 0)"
proof -
  define E where "E = exact_cost (a + c) (b + d)"
  have E: "E = exact_cost a b + exact_cost c d" by (simp add: E_def exact_cost_add)
  have Epos: "0 \<le> E" using assms by (simp add: E_def exact_cost_nonneg)
  from assms obtain x where x: "calculate_cost (JInt a) (JInt b) = Inr (Finite x)"
    and rx: "rounded 3 (exact_cost a b) x"
    by (elim calculate_cost_rounded [of a b, rotated 4]) simp_all
  from assms obtain y where y: "calculate_cost (JInt c) (JInt d) = Inr (Finite y)"
    and ry: "rounded 3 (exact_cost c d) y"
    by (elim calculate_cost_rounded [of c d, rotated 4]) simp_all
  from assms obtain z where z: "calculate_cost (JInt (a + c)) (JInt (b + d)) = Inr (Finite z)"
    and rz: "rounded 3 E z"
    unfolding E_def by (elim calculate_cost_rounded [of "a + c" "b + d", rotated 4]) simp_all
  have rxy: "rounded 3 E (x + y)" using rounded_add [OF rx ry] by (simp add: E)
  have "x + y \<le> 2 * E" using rxy Epos by (rule rounded_half_double(2)) simp
  also have "\<dots> \<le> 2 powi 1023"
    unfolding E_def using assms by (intro exact_cost_below) simp_all
  finally have "x + y \<le> 2 powi 1023" .
  moreover have "0 \<le> x + y" using rxy Epos by (rule rounded_nonneg)
  ultimately have "\<bar>x + y\<bar> \<le> 2 powi 1023" by simp
  then have "\<bar>round_to_ulp (x + y)\<bar> \<le> 2 powi 1023"
    by (rule round_to_ulp_le_pow2) simp
  moreover have "(2::rat) powi 1023 < 2 powi 1024" by simp
  ultimately have "\<bar>round_to_ulp (x + y)\<bar> < 2 powi 1024" by linarith
  then have s: "fadd (Finite x) (Finite y) = Finite (round_to_ulp (x + y))"
    by (simp add: fround_finite)
  have "E = 0 \<or> 1 / 2 ^ 20 \<le> E"
    unfolding E_def using assms by (intro exact_cost_big) simp_all
  with rxy have "rounded (Suc 3) E (round_to_ulp (x + y))"
    by (intro rounded_round) simp_all
  then have rs: "rounded 4 E (round_to_ulp (x + y))" by (simp add: eval_nat_numeral)
  have rz4: "rounded 4 E z" using rz Epos by (rule rounded_mono) simp
  have "\<bar>z - round_to_ulp (x + y)\<bar> \<le> E * (1 + unit_roundoff) ^ 4 - E * (1 - unit_roundoff) ^ 4"
    using rs rz4 unfolding rounded_def by linarith
  also have "\<dots> = E * ((1 + unit_roundoff) ^ 4 - (1 - unit_roundoff) ^ 4)"
    by (simp add: algebra_simps)
  also have "\<dots> \<le> E * (1 / 2 ^ 49)"
    using roundoff_spread Epos by (rule mult_left_mono)
  finally have "\<bar>z - round_to_ulp (x + y)\<bar> \<le> E / 2 ^ 49" by simp
  with x y z s E show ?thesis
    unfolding E_def using calculate_cost_zero by blast
qed

section \<open>Concrete costs\<close>

lemma round_to_ulp_eval:
  assumes "2 powi k \<le> \<bar>x\<bar>" and "\<bar>x\<bar> < 2 powi (k + 1)" and "- 1022 \<le> k"
  shows "round_to_ulp x = of_int (round_half_even (x / 2 powi (k - 52))) * 2 powi (k - 52)"
proof -
  have il: "ilog2 x = k" using assms(1,2) by (rule ilog2_eqI)
  have "(0::rat) < 2 powi k" by simp
  then have "0 < \<bar>x\<bar>" using assms(1) by linarith
  then have "x \<noteq> 0" by simp
  then show ?thesis using assms(3) by (simp add: round_to_ulp_unfold il)
qed

lemma cost_0_1: "calculate_cost (JInt 0) (JInt 1) = Inr (Finite (5534023222112865 / 36893488147419103232))"
proof -
  have qa: "round_to_ulp (of_int 0 / 1000) = 0"
    by simp
  have pa: "round_to_ulp (0 * rate_in) = 0"
    by simp
  have qb: "round_to_ulp (of_int 1 / 1000) = 1152921504606847 / 1152921504606846976"
    by (simp add: round_to_ulp_eval [of "- 10"] round_half_even_def Let_def floor_rat_numeral)
  have pb: "round_to_ulp ((1152921504606847 / 1152921504606846976) * rate_out) = 5534023222112865 / 36893488147419103232"
    by (simp add: rate_out_def round_to_ulp_eval [of "- 13"] round_half_even_def Let_def floor_rat_numeral)
  have s: "round_to_ulp (0 + (5534023222112865 / 36893488147419103232)) = 5534023222112865 / 36893488147419103232"
    by (simp add: round_to_ulp_eval [of "- 13"] round_half_even_def Let_def floor_rat_numeral)
  have "\<bar>0\<bar> < TOKEN_LIMIT" and "\<bar>1\<bar> < TOKEN_LIMIT"
    by (simp_all add: TOKEN_LIMIT_def)
  then have "calculate_cost (JInt 0) (JInt 1) =
      Inr (Finite (round_to_ulp
        (round_to_ulp (round_to_ulp (of_int 0 / 1000) * rate_in) +
         round_to_ulp (round_to_ulp (of_int 1 / 1000) * rate_out))))"
    by (rule calculate_cost_value(1))
  then show ?thesis unfolding qa pa qb pb s .
qed

lemma cost_0_4: "calculate_cost (JInt 0) (JInt 4) = Inr (Finite (5534023222112865 / 9223372036854775808))"
proof -
  have qa: "round_to_ulp (of_int 0 / 1000) = 0"
    by simp
  have pa: "round_to_ulp (0 * rate_in) = 0"
    by simp
  have qb: "round_to_ulp (of_int 4 / 1000) = 1152921504606847 / 288230376151711744"
    by (simp add: round_to_ulp_eval [of "- 8"] round_half_even_def Let_def floor_rat_numeral)
  have pb: "round_to_ulp ((1152921504606847 / 288230376151711744) * rate_out) = 5534023222112865 / 9223372036854775808"
    by (simp add: rate_out_def round_to_ulp_eval [of "- 11"] round_half_even_def Let_def floor_rat_numeral)
  have s: "round_to_ulp (0 + (5534023222112865 / 9223372036854775808)) = 5534023222112865 / 9223372036854775808"
    by (simp add: round_to_ulp_eval [of "- 11"] round_half_even_def Let_def floor_rat_numeral)
  have "\<bar>0\<bar> < TOKEN_LIMIT" and "\<bar>4\<bar> < TOKEN_LIMIT"
    by (simp_all add: TOKEN_LIMIT_def)
  then have "calculate_cost (JInt 0) (JInt 4) =
      Inr (Finite (round_to_ulp
        (round_to_ulp (round_to_ulp (of_int 0 / 1000) * rate_in) +
         round_to_ulp (round_to_ulp (of_int 4 / 1000) * rate_out))))"
    by (rule calculate_cost_value(1))
  then show ?thesis unfolding qa pa qb pb s .
qed

lemma cost_0_5: "calculate_cost (JInt 0) (JInt 5) = Inr (Finite (3458764513820541 / 4611686018427387904))"
proof -
  have qa: "round_to_ulp (of_int 0 / 1000) = 0"
    by simp
  have pa: "round_to_ulp (0 * rate_in) = 0"
    by simp
  have qb: "round_to_ulp (of_int 5 / 1000) = 5764607523034235 / 1152921504606846976"
    by (simp add: round_to_ulp_eval [of "- 8"] round_half_even_def Let_def floor_rat_numeral)
  have pb: "round_to_ulp ((5764607523034235 / 1152921504606846976) * rate_out) = 3458764513820541 / 4611686018427387904"
    by (simp add: rate_out_def round_to_ulp_eval [of "- 11"] round_half_even_def Let_def floor_rat_numeral)
  have s: "round_to_ulp (0 + (3458764513820541 / 4611686018427387904)) = 3458764513820541 / 4611686018427387904"
    by (simp add: round_to_ulp_eval [of "- 11"] round_half_even_def Let_def floor_rat_numeral)
  have "\<bar>0\<bar> < TOKEN_LIMIT" and "\<bar>5\<bar> < TOKEN_LIMIT"
    by (simp_all add: TOKEN_LIMIT_def)
  then have "calculate_cost (JInt 0) (JInt 5) =
      Inr (Finite (round_to_ulp
        (round_to_ulp (round_to_ulp (of_int 0 / 1000) * rate_in) +
         round_to_ulp (round_to_ulp (of_int 5 / 1000) * rate_out))))"
    by (rule calculate_cost_value(1))
  then show ?thesis unfolding qa pa qb pb s .
qed

lemma cost_1500_500: "calculate_cost (JInt 1500) (JInt 500) = Inr (Finite (1080863910568919 / 9007199254740992))"
proof -
  have qa: "round_to_ulp (of_int 1500 / 1000) = 3 / 2"
    by (simp add: round_to_ulp_eval [of "0"] round_half_even_def Let_def floor_rat_numeral)
  have pa: "round_to_ulp ((3 / 2) * rate_in) = 3242591731706757 / 72057594037927936"
    by (simp add: rate_in_def round_to_ulp_eval [of "- 5"] round_half_even_def Let_def floor_rat_numeral)
  have qb: "round_to_ulp (of_int 500 / 1000) = 1 / 2"
    by (simp add: round_to_ulp_eval [of "- 1"] round_half_even_def Let_def floor_rat_numeral)
  have pb: "round_to_ulp ((1 / 2) * rate_out) = 5404319552844595 / 72057594037927936"
    by (simp add: rate_out_def round_to_ulp_eval [of "- 4"] round_half_even_def Let_def floor_rat_numeral)
  have s: "round_to_ulp ((3242591731706757 / 72057594037927936) + (5404319552844595 / 72057594037927936)) = 1080863910568919 / 9007199254740992"
    by (simp add: round_to_ulp_eval [of "- 4"] round_half_even_def Let_def floor_rat_numeral)
  have "\<bar>1500\<bar> < TOKEN_LIMIT" and "\<bar>500\<bar> < TOKEN_LIMIT"
    by (simp_all add: TOKEN_LIMIT_def)
  then have "calculate_cost (JInt 1500) (JInt 500) =
      Inr (Finite (round_to_ulp
        (round_to_ulp (round_to_ulp (of_int 1500 / 1000) * rate_in) +
         round_to_ulp (round_to_ulp (of_int 500 / 1000) * rate_out))))"
    by (rule calculate_cost_value(1))
  then show ?thesis unfolding qa pa qb pb s .
qed

lemma sum_0_1_0_4: "fadd (Finite (5534023222112865 / 36893488147419103232)) (Finite (5534023222112865 / 9223372036854775808)) = Finite (6917529027641081 / 9223372036854775808)"
  by (simp add: fround_def round_to_ulp_eval [of "- 11"] round_half_even_def Let_def floor_rat_numeral)

theorem calculate_cost_formula_witness:
  "\<bar>1500\<bar> < TOKEN_LIMIT \<and> \<bar>500\<bar> < TOKEN_LIMIT \<and>
   calculate_cost (JInt 1500) (JInt 500) = Inr (spec_cost 1500 500) \<and>
   spec_cost 1500 500 = Finite (1080863910568919 / 9007199254740992) \<and>
   calculate_cost (JInt 0) (JInt 0) = Inr (Finite 0)"
  using calculate_cost_formula [of 1500 500] cost_1500_500
  by (simp add: TOKEN_LIMIT_def)

text \<open>
  C6, the counterexample. With floats the equation fails already for
  \<^verbatim>\<open>calculate_cost(0, 1) + calculate_cost(0, 4)\<close> against \<^verbatim>\<open>calculate_cost(0, 5)\<close>: Python
  prints \<^verbatim>\<open>0.0007499999999999999\<close> for the sum and \<^verbatim>\<open>0.00075\<close> for the cost of the
  sum.
\<close>

theorem calculate_cost_not_additive:
  "calculate_cost (JInt 0) (JInt 1) = Inr (Finite (5534023222112865 / 36893488147419103232)) \<and>
   calculate_cost (JInt 0) (JInt 4) = Inr (Finite (5534023222112865 / 9223372036854775808)) \<and>
   fadd (Finite (5534023222112865 / 36893488147419103232))
        (Finite (5534023222112865 / 9223372036854775808))
     = Finite (6917529027641081 / 9223372036854775808) \<and>
   calculate_cost (JInt (0 + 0)) (JInt (1 + 4))
     = Inr (Finite (3458764513820541 / 4611686018427387904)) \<and>
   Finite (3458764513820541 / 4611686018427387904)
     \<noteq> Finite (6917529027641081 / 9223372036854775808)"
  using cost_0_1 cost_0_4 cost_0_5 sum_0_1_0_4 by simp

theorem calculate_cost_additive_up_to_rounding_witness:
  "(0::int) \<le> 0 \<and> (0::int) \<le> 1 \<and> (0::int) \<le> 4 \<and> 0 + 0 < TOKEN_LIMIT \<and> 1 + 4 < TOKEN_LIMIT \<and>
   calculate_cost (JInt 0) (JInt 1) = Inr (Finite (5534023222112865 / 36893488147419103232)) \<and>
   calculate_cost (JInt 0) (JInt 4) = Inr (Finite (5534023222112865 / 9223372036854775808)) \<and>
   calculate_cost (JInt (0 + 0)) (JInt (1 + 4))
     = Inr (Finite (3458764513820541 / 4611686018427387904)) \<and>
   fadd (Finite (5534023222112865 / 36893488147419103232))
        (Finite (5534023222112865 / 9223372036854775808))
     = Finite (6917529027641081 / 9223372036854775808) \<and>
   \<bar>3458764513820541 / 4611686018427387904 - 6917529027641081 / 9223372036854775808\<bar>
     \<le> exact_cost (0 + 0) (1 + 4) / 2 ^ 49 \<and>
   exact_cost (0 + 0) (1 + 4) = exact_cost 0 1 + exact_cost 0 4"
  using calculate_cost_additive_up_to_rounding [of 0 1 0 4] cost_0_1 cost_0_4 cost_0_5 sum_0_1_0_4
  by (simp add: TOKEN_LIMIT_def exact_cost_def rate_in_def rate_out_def)

section \<open>Last resort\<close>

lemma clock_sane_valid:
  assumes "clock_sane e"
  shows "dt_valid (clock e n)" and "dt_valid (clock e n - US_PER_HOUR)"
    and "dt_valid (clock e n - US_PER_DAY)"
    and "0 \<le> d \<Longrightarrow> d < 7 \<Longrightarrow> dt_valid (clock e n - d * US_PER_DAY)"
proof -
  have c: "719162 * US_PER_DAY \<le> clock e n" "clock e n < MAX_ORDINAL * US_PER_DAY"
    using assms by (simp_all add: clock_sane_def)
  then show "dt_valid (clock e n)" and "dt_valid (clock e n - US_PER_HOUR)"
    and "dt_valid (clock e n - US_PER_DAY)"
    by (simp_all add: dt_valid_def US_PER_DAY_def US_PER_HOUR_def MAX_ORDINAL_def)
  show "dt_valid (clock e n - d * US_PER_DAY)" if "0 \<le> d" "d < 7"
  proof -
    have "d * US_PER_DAY \<le> 6 * US_PER_DAY" and "0 \<le> d * US_PER_DAY"
      using that by (simp_all add: US_PER_DAY_def)
    with c show ?thesis
      by (simp add: dt_valid_def US_PER_DAY_def MAX_ORDINAL_def)
  qed
qed

lemma default_start_sane:
  assumes "clock_sane e"
  shows "\<exists>start_time. default_start period (clock e n) = Inr start_time"
proof -
  have wd: "0 \<le> weekday (clock e n)" "weekday (clock e n) < 7"
    by (simp_all add: weekday_def)
  then have "timedelta_days (weekday (clock e n)) = Inr (weekday (clock e n) * US_PER_DAY)"
    by (simp add: timedelta_days_def)
  moreover have "dt_sub (clock e n) (weekday (clock e n) * US_PER_DAY)
      = Inr (clock e n - weekday (clock e n) * US_PER_DAY)"
    using clock_sane_valid(4) [OF assms wd] by (simp add: dt_sub_def)
  moreover have "timedelta_days 1 = Inr US_PER_DAY"
    by (simp add: timedelta_days_def)
  moreover have "dt_sub (clock e n) US_PER_DAY = Inr (clock e n - US_PER_DAY)"
    using clock_sane_valid(3) [OF assms] by (simp add: dt_sub_def)
  ultimately show ?thesis by (simp add: default_start_def)
qed

lemma session_empty_sane:
  assumes "clock_sane e"
  shows "session_empty e t =
    Inr (JDict [(''input_tokens'', JInt 0), (''output_tokens'', JInt 0),
                (''total_tokens'', JInt 0),
                (''session_start'', JStr (isoformat (Naive (clock e t - US_PER_HOUR))))], Suc t)"
  using clock_sane_valid(2) [OF assms, of t] by (simp add: session_empty_def dt_sub_def)

lemma py_add_ints [simp]: "py_add (JInt a) (JInt b) = Inr (JInt (a + b))"
  by (simp add: py_add_def)

lemma period_from_logs_failing:
  assumes "call_fails e [''claude'', ''logs'', ''--format'', ''json'', ''--limit'',
                         str_int (log_limit period)] t"
  shows "period_from_logs e period start_time end_time t =
    Inr (JDict [(''period'', JStr period), (''input_tokens'', JInt 0),
                (''output_tokens'', JInt 0), (''total_tokens'', JInt 0),
                (''cost'', JFloat (Finite 0)),
                (''start_time'', JStr (isoformat (Naive start_time))),
                (''end_time'', JStr (isoformat (Naive end_time)))], Suc t)"
  using call_fails_fetch [OF assms] by (simp add: period_from_logs_def calculate_cost_zero)

lemma period_from_range_failing:
  assumes "call_fails e [''claude'', ''stats'', ''--from'', strftime_ymd e start_time, ''--to'',
                         strftime_ymd e end_time, ''--format'', ''json''] t"
    and "call_fails e [''claude'', ''logs'', ''--format'', ''json'', ''--limit'',
                       str_int (log_limit period)] (Suc t)"
  shows "period_from_range e period start_time end_time t =
    Inr (JDict [(''period'', JStr period), (''input_tokens'', JInt 0),
                (''output_tokens'', JInt 0), (''total_tokens'', JInt 0),
                (''cost'', JFloat (Finite 0)),
                (''start_time'', JStr (isoformat (Naive start_time))),
                (''end_time'', JStr (isoformat (Naive end_time)))], Suc (Suc t))"
  using call_fails_fetch [OF assms(1)] period_from_logs_failing [OF assms(2)]
  by (simp add: period_from_range_def Let_def)

lemma get_time_period_stats_failing:
  assumes "stats_and_logs_fail e"
    and "(case start_arg of None \<Rightarrow> default_start period (clock e t) | Some x \<Rightarrow> Inr x)
           = Inr start_time"
  shows "get_time_period_stats e period start_arg end_arg t =
    Inr (JDict [(''period'', JStr period), (''input_tokens'', JInt 0),
                (''output_tokens'', JInt 0), (''total_tokens'', JInt 0),
                (''cost'', JFloat (Finite 0)),
                (''start_time'', JStr (isoformat (Naive start_time))),
                (''end_time'', JStr (isoformat (Naive
                   (case end_arg of None \<Rightarrow> clock e t | Some x \<Rightarrow> x))))],
         if period \<in> set [''daily'', ''weekly'', ''monthly''] then t + 4 else t + 3)"
proof -
  have f: "\<And>rest n. call_fails e (''claude'' # ''stats'' # rest) n"
    "\<And>rest n. call_fails e (''claude'' # ''logs'' # rest) n"
    using assms(1) by (simp_all add: stats_and_logs_fail_def)
  show ?thesis
    unfolding get_time_period_stats_def Let_def assms(2)
    by (simp add: call_fails_fetch [OF f(1)] period_from_range_failing [OF f(1) f(2)])
qed

lemma session_failing:
  assumes "stats_and_logs_fail e" and "clock_sane e"
  shows "get_current_session_stats e t =
    Inr (JDict [(''input_tokens'', JInt 0), (''output_tokens'', JInt 0),
                (''total_tokens'', JInt 0),
                (''session_start'',
                 JStr (isoformat (Naive (clock e (t + 2) - US_PER_HOUR))))], t + 3)"
proof -
  have f: "\<And>rest n. call_fails e (''claude'' # ''stats'' # rest) n"
    "\<And>rest n. call_fails e (''claude'' # ''logs'' # rest) n"
    using assms(1) by (simp_all add: stats_and_logs_fail_def)
  show ?thesis
    by (simp add: get_current_session_stats_def call_fails_fetch [OF f(1)]
        call_fails_fetch [OF f(2)] session_empty_sane [OF assms(2)])
qed

text \<open>
  C3, as amended. When the structured stats queries and the log listing all fail (an
  unsuccessful flag, or output that \<^verbatim>\<open>json.loads\<close> rejects with \<^verbatim>\<open>JSONDecodeError\<close>) and
  the clock shows a time from 1970 on, both fetchers return all token counts 0. The
  period fetcher returns a cost of 0 and a pair of timestamps that are not null, the
  start of its window and its end. The session fetcher returns one timestamp only, a
  \<^verbatim>\<open>session_start\<close> of one hour before the time it reads; the end of the session's
  window is not in the object.
\<close>

theorem zero_stats_when_all_fetches_fail:
  assumes "stats_and_logs_fail e" and "clock_sane e"
  shows "get_current_session_stats e t =
           Inr (JDict [(''input_tokens'', JInt 0), (''output_tokens'', JInt 0),
                       (''total_tokens'', JInt 0),
                       (''session_start'',
                        JStr (isoformat (Naive (clock e (t + 2) - US_PER_HOUR))))], t + 3) \<and>
         (\<exists>start_time t'.
            (case start_arg of None \<Rightarrow> default_start period (clock e t) | Some x \<Rightarrow> Inr x)
              = Inr start_time \<and>
            get_time_period_stats e period start_arg end_arg t =
              Inr (JDict [(''period'', JStr period), (''input_tokens'', JInt 0),
                          (''output_tokens'', JInt 0), (''total_tokens'', JInt 0),
                          (''cost'', JFloat (Finite 0)),
                          (''start_time'', JStr (isoformat (Naive start_time))),
                          (''end_time'', JStr (isoformat (Naive
                             (case end_arg of None \<Rightarrow> clock e t | Some x \<Rightarrow> x))))], t'))"
proof -
  obtain start_time where
    s: "(case start_arg of None \<Rightarrow> default_start period (clock e t) | Some x \<Rightarrow> Inr x)
          = Inr start_time"
    using default_start_sane [OF assms(2), of period t] by (cases start_arg) auto
  show ?thesis
    using session_failing [OF assms] get_time_period_stats_failing [OF assms(1) s] s
    by blast
qed

lemma env_failing_fails: "stats_and_logs_fail env_failing"
  by (simp add: stats_and_logs_fail_def call_fails_def run_command_cases env_failing_def)

lemma env_failing_sane: "clock_sane env_failing"
  by (simp add: clock_sane_def env_failing_def noon_def US_PER_DAY_def MAX_ORDINAL_def)

lemma iso_11: "iso_naive (noon - US_PER_HOUR) = ''2024-06-15T11:00:00''"
  by code_simp

lemma iso_12: "iso_naive noon = ''2024-06-15T12:00:00''"
  by code_simp

lemma iso_00: "iso_naive (start_of_day noon) = ''2024-06-15T00:00:00''"
  by code_simp

lemma clock_env_failing [simp]: "clock env_failing n = noon"
  by (simp add: env_failing_def)

theorem zero_stats_when_all_fetches_fail_witness:
  "stats_and_logs_fail env_failing \<and> clock_sane env_failing \<and>
   get_current_session_stats env_failing 0 =
     Inr (JDict [(''input_tokens'', JInt 0), (''output_tokens'', JInt 0),
                 (''total_tokens'', JInt 0),
                 (''session_start'', JStr ''2024-06-15T11:00:00'')], 3) \<and>
   get_time_period_stats env_failing ''daily'' None None 0 =
     Inr (JDict [(''period'', JStr ''daily''), (''input_tokens'', JInt 0),
                 (''output_tokens'', JInt 0), (''total_tokens'', JInt 0),
                 (''cost'', JFloat (Finite 0)),
                 (''start_time'', JStr ''2024-06-15T00:00:00''),
                 (''end_time'', JStr ''2024-06-15T12:00:00'')], 4)"
  using zero_stats_when_all_fetches_fail [where e = env_failing and t = 0 and start_arg = None
      and period = "''daily''" and end_arg = None, OF env_failing_fails env_failing_sane]
    get_time_period_stats_failing [where e = env_failing and t = 0 and start_arg = None
      and period = "''daily''" and end_arg = None and start_time = "start_of_day noon",
      OF env_failing_fails]
  by (simp add: env_failing_fails env_failing_sane default_start_def iso_11 iso_12 iso_00)

text \<open>
  C3, the counterexample. With every command exiting with code 1 at 12:00, the object
  that \<^verbatim>\<open>get_current_session_stats\<close> returns holds a single timestamp, the
  \<^verbatim>\<open>session_start\<close> of 11:00, and not a pair: no field of it is the end of the window,
  12:00. The object of \<^verbatim>\<open>get_time_period_stats\<close> holds two.
\<close>

theorem session_last_resort_single_timestamp:
  "get_current_session_stats env_failing 0 =
     Inr (JDict [(''input_tokens'', JInt 0), (''output_tokens'', JInt 0),
                 (''total_tokens'', JInt 0),
                 (''session_start'', JStr ''2024-06-15T11:00:00'')], 3) \<and>
   stats_timestamps (JDict [(''input_tokens'', JInt 0), (''output_tokens'', JInt 0),
                 (''total_tokens'', JInt 0),
                 (''session_start'', JStr ''2024-06-15T11:00:00'')])
     = [(''session_start'', JStr ''2024-06-15T11:00:00'')] \<and>
   isoformat (Naive (clock env_failing 2)) = ''2024-06-15T12:00:00'' \<and>
   py_contains ''end_time'' (JDict [(''input_tokens'', JInt 0), (''output_tokens'', JInt 0),
                 (''total_tokens'', JInt 0),
                 (''session_start'', JStr ''2024-06-15T11:00:00'')]) = Inr False \<and>
   stats_timestamps (JDict [(''period'', JStr ''daily''), (''input_tokens'', JInt 0),
                 (''output_tokens'', JInt 0), (''total_tokens'', JInt 0),
                 (''cost'', JFloat (Finite 0)),
                 (''start_time'', JStr ''2024-06-15T00:00:00''),
                 (''end_time'', JStr ''2024-06-15T12:00:00'')])
     = [(''start_time'', JStr ''2024-06-15T00:00:00''),
        (''end_time'', JStr ''2024-06-15T12:00:00'')]"
  using session_failing [OF env_failing_fails env_failing_sane, of 0]
  by (simp add: stats_timestamps_def iso_11 iso_12)

text \<open>
  An output that is JSON but that \<^verbatim>\<open>json.loads\<close> cannot build is outside the statement
  above: the \<^verbatim>\<open>ValueError\<close> for an integer of more than 4300 digits is not a
  \<^verbatim>\<open>JSONDecodeError\<close>, and it leaves the fetcher.
\<close>

lemma session_stats_uncaught:
  assumes "run_command e [''claude'', ''stats'', ''--format'', ''json''] t
             = Inr ((out, True), t')"
    and "json_loads e out = Inl x" and "x \<noteq> JSONDecodeError"
  shows "get_current_session_stats e t = Inl x"
  using assms
  by (simp add: get_current_session_stats_def
      fetch_json_uncaught [where caught = "[JSONDecodeError]"])

section \<open>Totals\<close>

lemma field_or_zero_update:
  "k \<noteq> k' \<Longrightarrow> field_or_zero (AList.update k' v kvs) k = field_or_zero kvs k"
  by (simp add: field_or_zero_def update_conv')

lemma py_get_field: "py_get (JDict kvs) k (JInt 0) = Inr (field_or_zero kvs k)"
  by (simp add: field_or_zero_def)

text \<open>What the structured paths return: the parsed stats were a dict, and the five fields
  are set in order.\<close>

lemma fill_period_stats_dict:
  "fill_period_stats period start_time end_time (JDict kvs) =
     try_bind (py_add (field_or_zero kvs ''input_tokens'') (field_or_zero kvs ''output_tokens''))
       (\<lambda>v.
     try_bind (calculate_cost (field_or_zero kvs ''input_tokens'')
                 (field_or_zero kvs ''output_tokens'')) (\<lambda>cost.
       Inr (JDict (AList.update ''cost'' (JFloat cost)
                  (AList.update ''total_tokens'' v
                  (AList.update ''end_time'' (JStr (isoformat (Naive end_time)))
                  (AList.update ''start_time'' (JStr (isoformat (Naive start_time)))
                  (AList.update ''period'' (JStr period) kvs))))))))"
  by (simp add: fill_period_stats_def py_get_field field_or_zero_update del: py_get.simps)

lemma fill_period_stats_Inr:
  assumes "fill_period_stats period start_time end_time stats = Inr r"
  obtains kvs v cost where "stats = JDict kvs"
    and "py_add (field_or_zero kvs ''input_tokens'') (field_or_zero kvs ''output_tokens'') = Inr v"
    and "r = JDict (AList.update ''cost'' (JFloat cost)
                (AList.update ''total_tokens'' v
                (AList.update ''end_time'' (JStr (isoformat (Naive end_time)))
                (AList.update ''start_time'' (JStr (isoformat (Naive start_time)))
                (AList.update ''period'' (JStr period) kvs)))))"
proof (cases stats)
  case (JDict kvs)
  from assms obtain v cost where
    "py_add (field_or_zero kvs ''input_tokens'') (field_or_zero kvs ''output_tokens'') = Inr v"
    and "r = JDict (AList.update ''cost'' (JFloat cost)
                (AList.update ''total_tokens'' v
                (AList.update ''end_time'' (JStr (isoformat (Naive end_time)))
                (AList.update ''start_time'' (JStr (isoformat (Naive start_time)))
                (AList.update ''period'' (JStr period) kvs)))))"
    unfolding JDict fill_period_stats_dict by (auto simp add: try_bind_eq_Inr)
  with JDict show ?thesis by (rule that)
qed (use assms in \<open>simp_all add: fill_period_stats_def\<close>)

lemma fill_period_stats_total:
  assumes "fill_period_stats period start_time end_time stats = Inr r"
  shows "total_is_sum r"
  using assms
  by (elim fill_period_stats_Inr)
     (simp add: total_is_sum_def update_conv' field_or_zero_update)

lemma fill_period_stats_fields:
  assumes "fill_period_stats period start_time end_time stats = Inr r"
  shows "py_get r ''period'' JNull = Inr (JStr period)"
    and "py_get r ''start_time'' JNull = Inr (JStr (isoformat (Naive start_time)))"
    and "py_get r ''end_time'' JNull = Inr (JStr (isoformat (Naive end_time)))"
  using assms by (elim fill_period_stats_Inr; simp add: update_conv')+

lemma period_from_logs_Inr:
  assumes "period_from_logs e period start_time end_time t = Inr (r, t')"
  obtains input_tokens output_tokens v cost where
    "py_add input_tokens output_tokens = Inr v"
    and "r = JDict [(''period'', JStr period), (''input_tokens'', input_tokens),
                    (''output_tokens'', output_tokens), (''total_tokens'', v),
                    (''cost'', JFloat cost),
                    (''start_time'', JStr (isoformat (Naive start_time))),
                    (''end_time'', JStr (isoformat (Naive end_time)))]"
  using assms unfolding period_from_logs_def
  by (auto simp add: try_bind_eq_Inr split: prod.splits)

lemma period_from_logs_total:
  assumes "period_from_logs e period start_time end_time t = Inr (r, t')"
  shows "total_is_sum r"
  using assms by (elim period_from_logs_Inr) (simp add: total_is_sum_def field_or_zero_def)

lemma period_from_logs_fields:
  assumes "period_from_logs e period start_time end_time t = Inr (r, t')"
  shows "py_get r ''period'' JNull = Inr (JStr period)"
    and "py_get r ''start_time'' JNull = Inr (JStr (isoformat (Naive start_time)))"
    and "py_get r ''end_time'' JNull = Inr (JStr (isoformat (Naive end_time)))"
  using assms by (elim period_from_logs_Inr; simp)+

text \<open>Every return of \<^verbatim>\<open>get_time_period_stats\<close> is one of the two.\<close>

lemma get_time_period_stats_Inr:
  assumes "get_time_period_stats e period start_arg end_arg t = Inr (r, t')"
  obtains start_time where
    "(case start_arg of None \<Rightarrow> default_start period (clock e t) | Some x \<Rightarrow> Inr x)
       = Inr start_time"
    and "(\<exists>stats. fill_period_stats period start_time
              (case end_arg of None \<Rightarrow> clock e t | Some x \<Rightarrow> x) stats = Inr r) \<or>
         (\<exists>n. period_from_logs e period start_time
              (case end_arg of None \<Rightarrow> clock e t | Some x \<Rightarrow> x) n = Inr (r, t'))"
  using assms unfolding get_time_period_stats_def period_from_range_def Let_def
  by (fastforce simp add: try_bind_eq_Inr split: prod.splits option.splits if_splits)

lemma get_time_period_stats_total:
  assumes "get_time_period_stats e period start_arg end_arg t = Inr (r, t')"
  shows "total_is_sum r"
  using assms
  by (elim get_time_period_stats_Inr) (auto dest: fill_period_stats_total period_from_logs_total)

lemma get_time_period_stats_fields:
  assumes "get_time_period_stats e period (Some start_time) (Some end_time) t = Inr (r, t')"
  shows "py_get r ''period'' JNull = Inr (JStr period)"
    and "py_get r ''start_time'' JNull = Inr (JStr (isoformat (Naive start_time)))"
    and "py_get r ''end_time'' JNull = Inr (JStr (isoformat (Naive end_time)))"
  using assms
  by (elim get_time_period_stats_Inr;
      auto dest: fill_period_stats_fields period_from_logs_fields)+

lemma session_from_logs_total:
  assumes "session_from_logs e logs t = Inr (r, t')"
  shows "total_is_sum r"
  using assms unfolding session_from_logs_def
  by (auto simp add: try_bind_eq_Inr total_is_sum_def field_or_zero_def Let_def
      split: prod.splits option.splits)

lemma session_empty_total:
  assumes "session_empty e t = Inr (r, t')"
  shows "total_is_sum r"
  using assms unfolding session_empty_def
  by (auto simp add: try_bind_eq_Inr total_is_sum_def field_or_zero_def Let_def)

lemma session_fallback_total:
  assumes "\<not> call_answers e [''claude'', ''stats'', ''--format'', ''json''] t"
    and "get_current_session_stats e t = Inr (r, t')"
  shows "total_is_sum r"
proof -
  from assms(2) obtain stats t1 where
    s: "fetch_json e [JSONDecodeError] [''claude'', ''stats'', ''--format'', ''json''] t
          = Inr (stats, t1)"
    and r1: "(case stats of
                Some stats \<Rightarrow> session_from_stats e stats t1
              | None \<Rightarrow>
                  try_bind (fetch_json e [JSONDecodeError, AttributeError]
                              [''claude'', ''logs'', ''--format'', ''json'', ''--limit'',
                               str_int SESSION_LOG_LIMIT] t1) (\<lambda>(parsed2, t2).
                    case parsed2 of
                      Some logs \<Rightarrow>
                        (case session_from_logs e logs t2 of
                           Inl x \<Rightarrow> if x = AttributeError then session_empty e t2 else Inl x
                         | Inr r \<Rightarrow> Inr r)
                    | None \<Rightarrow> session_empty e t2)) = Inr (r, t')"
    unfolding get_current_session_stats_def
    by (auto simp add: try_bind_eq_Inr)
  have "stats = None"
    using s assms(1) fetch_json_Some by (cases stats) blast+
  with r1 obtain parsed t2 where
    r: "(case parsed of
               Some logs \<Rightarrow>
                 (case session_from_logs e logs t2 of
                    Inl x \<Rightarrow> if x = AttributeError then session_empty e t2 else Inl x
                  | Inr r \<Rightarrow> Inr r)
             | None \<Rightarrow> session_empty e t2) = Inr (r, t')"
    by (auto simp add: try_bind_eq_Inr)
  show ?thesis
  proof (cases parsed)
    case None
    with r show ?thesis by (simp add: session_empty_total)
  next
    case (Some logs)
    show ?thesis
    proof (cases "session_from_logs e logs t2")
      case (Inl x)
      with r Some have "session_empty e t2 = Inr (r, t')"
        by (simp split: if_splits)
      then show ?thesis by (rule session_empty_total)
    next
      case (Inr v)
      with r Some have "session_from_logs e logs t2 = Inr (r, t')" by simp
      then show ?thesis by (rule session_from_logs_total)
    qed
  qed
qed

text \<open>
  C1, as amended. Every stats mapping that \<^verbatim>\<open>get_time_period_stats\<close> returns, on each of
  its return paths, and every one that \<^verbatim>\<open>get_current_session_stats\<close> returns when its
  structured query has given no stats object (the log path and the last resort), has a
  \<^verbatim>\<open>total_tokens\<close> equal to \<^verbatim>\<open>input_tokens\<close> plus \<^verbatim>\<open>output_tokens\<close>.
\<close>

theorem total_tokens_is_sum:
  "(get_time_period_stats e period start_arg end_arg t = Inr (r, t') \<longrightarrow> total_is_sum r) \<and>
   (\<not> call_answers e [''claude'', ''stats'', ''--format'', ''json''] t \<longrightarrow>
    get_current_session_stats e t = Inr (r, t') \<longrightarrow> total_is_sum r)"
  using get_time_period_stats_total session_fallback_total by blast

lemma total_is_sum_ints:
  assumes "total_is_sum (JDict kvs)"
    and "map_of kvs ''input_tokens'' = Some (JInt a)"
    and "map_of kvs ''output_tokens'' = Some (JInt b)"
  shows "map_of kvs ''total_tokens'' = Some (JInt (a + b))"
  using assms by (simp add: total_is_sum_def field_or_zero_def split: option.splits)

subsection \<open>The structured session path\<close>

text \<open>
  C1, the counterexample. On its structured path \<^verbatim>\<open>get_current_session_stats\<close> returns
  the parsed JSON as it is, adding only a missing \<^verbatim>\<open>session_start\<close>: a
  \<^verbatim>\<open>total_tokens\<close> of 100 beside the counts 5 and 3 is returned unchanged.
\<close>

theorem session_total_not_recomputed:
  "get_current_session_stats env_stats 0 =
     Inr (JDict [(''input_tokens'', JInt 5), (''output_tokens'', JInt 3),
                 (''total_tokens'', JInt 100),
                 (''session_start'', JStr ''2024-06-15T11:00:00'')], 1) \<and>
   \<not> total_is_sum (JDict [(''input_tokens'', JInt 5), (''output_tokens'', JInt 3),
                 (''total_tokens'', JInt 100),
                 (''session_start'', JStr ''2024-06-15T11:00:00'')])"
  by (simp add: get_current_session_stats_def fetch_json_def run_command_cases env_stats_def
      stats_value_def session_from_stats_def total_is_sum_def field_or_zero_def)

lemma cost_5_3: "calculate_cost (JInt 5) (JInt 3) = Inr (Finite (5534023222112865 / 9223372036854775808))"
proof -
  have qa: "round_to_ulp (of_int 5 / 1000) = 5764607523034235 / 1152921504606846976"
    by (simp add: round_to_ulp_eval [of "- 8"] round_half_even_def Let_def floor_rat_numeral)
  have pa: "round_to_ulp ((5764607523034235 / 1152921504606846976) * rate_in) = 5534023222112865 / 36893488147419103232"
    by (simp add: rate_in_def round_to_ulp_eval [of "- 13"] round_half_even_def Let_def floor_rat_numeral)
  have qb: "round_to_ulp (of_int 3 / 1000) = 3458764513820541 / 1152921504606846976"
    by (simp add: round_to_ulp_eval [of "- 9"] round_half_even_def Let_def floor_rat_numeral)
  have pb: "round_to_ulp ((3458764513820541 / 1152921504606846976) * rate_out) = 4150517416584649 / 9223372036854775808"
    by (simp add: rate_out_def round_to_ulp_eval [of "- 12"] round_half_even_def Let_def floor_rat_numeral)
  have s: "round_to_ulp ((5534023222112865 / 36893488147419103232) + (4150517416584649 / 9223372036854775808)) = 5534023222112865 / 9223372036854775808"
    by (simp add: round_to_ulp_eval [of "- 11"] round_half_even_def Let_def floor_rat_numeral)
  have "\<bar>5\<bar> < TOKEN_LIMIT" and "\<bar>3\<bar> < TOKEN_LIMIT"
    by (simp_all add: TOKEN_LIMIT_def)
  then have "calculate_cost (JInt 5) (JInt 3) =
      Inr (Finite (round_to_ulp
        (round_to_ulp (round_to_ulp (of_int 5 / 1000) * rate_in) +
         round_to_ulp (round_to_ulp (of_int 3 / 1000) * rate_out))))"
    by (rule calculate_cost_value(1))
  then show ?thesis unfolding qa pa qb pb s .
qed

section \<open>Example runs\<close>

lemma iso_examples:
  "iso_naive 63854006400000000 = ''2024-06-15T00:00:00''"
  "iso_naive 63853574400000000 = ''2024-06-10T00:00:00''"
  "iso_naive 63852796800000000 = ''2024-06-01T00:00:00''"
  "iso_naive 63853444800000000 = ''2024-06-08T12:00:00''"
  "iso_naive 63853952400000000 = ''2024-06-14T09:00:00''"
  "iso_naive 63854049600000000 = ''2024-06-15T12:00:00''"
  "iso_naive 63854046000000000 = ''2024-06-15T11:00:00''"
  by code_simp+

lemma default_start_noon:
  "default_start ''daily'' noon = Inr 63854006400000000"
  "default_start ''weekly'' noon = Inr 63853574400000000"
  "default_start ''monthly'' noon = Inr 63852796800000000"
  by code_simp+

lemma str_int_7: "str_int 7 = ''7''"
  by code_simp

lemma clock_examples [simp]:
  "clock env_stats n = noon" "clock env_logs n = noon"
  by (simp_all add: env_stats_def env_logs_def)

lemma period_daily_env_stats:
  "get_time_period_stats env_stats ''daily'' None None 0 =
     Inr (JDict [(''input_tokens'', JInt 5), (''output_tokens'', JInt 3),
                 (''total_tokens'', JInt 8),
                 (''session_start'', JStr ''2024-06-15T11:00:00''),
                 (''period'', JStr ''daily''),
                 (''start_time'', JStr ''2024-06-15T00:00:00''),
                 (''end_time'', JStr ''2024-06-15T12:00:00''),
                 (''cost'', JFloat (Finite (5534023222112865 / 9223372036854775808)))], 2)"
proof -
  have f: "fetch_json env_stats [JSONDecodeError] [''claude'', ''stats'', ''--period'', ''daily'', ''--format'', ''json'']
             (Suc 0) = Inr (Some stats_value, 2)"
    by (simp add: fetch_json_def run_command_cases env_stats_def)
  show ?thesis
    unfolding get_time_period_stats_def Let_def
    by (simp add: default_start_noon f stats_value_def fill_period_stats_dict field_or_zero_def
        cost_5_3 iso_12 iso_examples)
qed

lemma session_env_logs:
  "get_current_session_stats env_logs 0 =
     Inr (JDict [(''input_tokens'', JInt 1110), (''output_tokens'', JInt 2220),
                 (''total_tokens'', JInt 3330),
                 (''session_start'', JStr ''2024-06-14T09:00:00'')], 2)"
proof -
  have f1: "fetch_json env_logs [JSONDecodeError] [''claude'', ''stats'', ''--format'', ''json''] 0 = Inr (None, 1)"
    by (simp add: fetch_json_def run_command_cases env_logs_def)
  have f2: "fetch_json env_logs [JSONDecodeError, AttributeError]
      [''claude'', ''logs'', ''--format'', ''json'', ''--limit'',
              str_int SESSION_LOG_LIMIT] (Suc 0)
            = Inr (Some (JList [entry_today, entry_day_before, entry_malformed]), 2)"
    by (simp add: fetch_json_def run_command_cases env_logs_def)
  have p: "fromisoformat env_logs ''2024-06-15T11:30:00'' = Some (Naive 63854047800000000)"
    "fromisoformat env_logs ''2024-06-14T09:00:00'' = Some (Naive 63853952400000000)"
    "fromisoformat env_logs ''yesterday'' = None"
    by (simp_all add: env_logs_def)
  have l: "session_log_loop env_logs ((JInt 0, JInt 0), (None, None))
             [entry_today, entry_day_before, entry_malformed]
           = Inr ((JInt 1110, JInt 2220),
                  (Some (Naive 63853952400000000), Some (Naive 63854047800000000)))"
    by (simp add: session_log_entry_def add_entry_tokens_def entry_count_def
        track_timestamp_def dt_greater_def entry_today_def entry_day_before_def
        entry_malformed_def tokens_value_def p Let_def)
  show ?thesis
    by (simp add: get_current_session_stats_def f1 f2 session_from_logs_def l iso_examples
        del: session_log_loop.simps)
qed

lemma no_answer_env_logs:
  "\<not> call_answers env_logs [''claude'', ''stats'', ''--format'', ''json''] 0"
  by (simp add: call_answers_def run_command_cases env_logs_def)

theorem total_tokens_is_sum_witness:
  "get_time_period_stats env_stats ''daily'' None None 0 =
     Inr (JDict [(''input_tokens'', JInt 5), (''output_tokens'', JInt 3),
                 (''total_tokens'', JInt 8),
                 (''session_start'', JStr ''2024-06-15T11:00:00''),
                 (''period'', JStr ''daily''),
                 (''start_time'', JStr ''2024-06-15T00:00:00''),
                 (''end_time'', JStr ''2024-06-15T12:00:00''),
                 (''cost'', JFloat (Finite (5534023222112865 / 9223372036854775808)))], 2) \<and>
   total_is_sum (JDict [(''input_tokens'', JInt 5), (''output_tokens'', JInt 3),
                 (''total_tokens'', JInt 8),
                 (''session_start'', JStr ''2024-06-15T11:00:00''),
                 (''period'', JStr ''daily''),
                 (''start_time'', JStr ''2024-06-15T00:00:00''),
                 (''end_time'', JStr ''2024-06-15T12:00:00''),
                 (''cost'', JFloat (Finite (5534023222112865 / 9223372036854775808)))]) \<and>
   \<not> call_answers env_logs [''claude'', ''stats'', ''--format'', ''json''] 0 \<and>
   get_current_session_stats env_logs 0 =
     Inr (JDict [(''input_tokens'', JInt 1110), (''output_tokens'', JInt 2220),
                 (''total_tokens'', JInt 3330),
                 (''session_start'', JStr ''2024-06-14T09:00:00'')], 2) \<and>
   total_is_sum (JDict [(''input_tokens'', JInt 1110), (''output_tokens'', JInt 2220),
                 (''total_tokens'', JInt 3330),
                 (''session_start'', JStr ''2024-06-14T09:00:00'')])"
  using total_tokens_is_sum [where e = env_stats and period = "''daily''" and start_arg = None
      and end_arg = None and t = 0 and t' = 2, unfolded period_daily_env_stats]
    total_tokens_is_sum [where e = env_logs and t = 0 and t' = 2, unfolded session_env_logs]
  by (simp add: period_daily_env_stats session_env_logs no_answer_env_logs)

section \<open>Custom window\<close>

lemma custom_period_Inr:
  assumes "custom_period e n t = Inr ((daily_stats, weekly_stats, monthly_stats), t')"
  shows "daily_stats = weekly_stats \<and> weekly_stats = monthly_stats \<and>
         py_get daily_stats ''period'' JNull = Inr (JStr (''last '' @ str_int n @ '' days'')) \<and>
         py_get daily_stats ''start_time'' JNull
           = Inr (JStr (isoformat (Naive (clock e t - n * US_PER_DAY)))) \<and>
         py_get daily_stats ''end_time'' JNull = Inr (JStr (isoformat (Naive (clock e t))))"
proof -
  from assms obtain delta start_time where
    d: "timedelta_days n = Inr delta" and s: "dt_sub (clock e t) delta = Inr start_time"
    and g: "get_time_period_stats e (''last '' @ str_int n @ '' days'')
              (Some start_time) (Some (clock e t)) (Suc t) = Inr (daily_stats, t')"
    and eq: "weekly_stats = daily_stats" "monthly_stats = daily_stats"
    unfolding custom_period_def Let_def
    by (auto simp add: try_bind_eq_Inr split: prod.splits)
  from d have "delta = n * US_PER_DAY" by (simp add: timedelta_days_def split: if_splits)
  with s have "start_time = clock e t - n * US_PER_DAY"
    by (simp add: dt_sub_def split: if_splits)
  with get_time_period_stats_fields [OF g] eq show ?thesis by simp
qed

text \<open>
  C7, as amended. With \<^verbatim>\<open>--days N\<close> for \<open>N \<noteq> 0\<close>, the three period stats handed to the
  report are one and the same object, labelled \<^verbatim>\<open>last N days\<close>, whose window starts
  \<open>N\<close> days before the time \<^verbatim>\<open>main\<close> reads after the session stats and ends at that
  time.
\<close>

theorem custom_days_window:
  assumes "n \<noteq> 0"
    and "main_stats e (a\<lparr>days := Some n\<rparr>) t
           = Inr ((current_stats, daily_stats, weekly_stats, monthly_stats), t')"
  shows "daily_stats = weekly_stats \<and> weekly_stats = monthly_stats \<and>
         (\<exists>t1. get_current_session_stats e t = Inr (current_stats, t1) \<and>
            py_get daily_stats ''period'' JNull
              = Inr (JStr (''last '' @ str_int n @ '' days'')) \<and>
            py_get daily_stats ''start_time'' JNull
              = Inr (JStr (isoformat (Naive (clock e t1 - n * US_PER_DAY)))) \<and>
            py_get daily_stats ''end_time'' JNull
              = Inr (JStr (isoformat (Naive (clock e t1)))))"
proof -
  from assms obtain t1 where
    c: "get_current_session_stats e t = Inr (current_stats, t1)"
    and p: "custom_period e n t1 = Inr ((daily_stats, weekly_stats, monthly_stats), t')"
    unfolding main_stats_def
    by (auto simp add: try_bind_eq_Inr split: prod.splits)
  from custom_period_Inr [OF p] c show ?thesis by blast
qed

lemma session_env_failing:
  "get_current_session_stats env_failing t =
     Inr (JDict [(''input_tokens'', JInt 0), (''output_tokens'', JInt 0),
                 (''total_tokens'', JInt 0),
                 (''session_start'', JStr ''2024-06-15T11:00:00'')], t + 3)"
  using session_failing [OF env_failing_fails env_failing_sane, of t] by (simp add: iso_11)

lemma period_env_failing:
  assumes "(case start_arg of None \<Rightarrow> default_start period noon | Some x \<Rightarrow> Inr x)
             = Inr start_time"
  shows "get_time_period_stats env_failing period start_arg end_arg t =
    Inr (JDict [(''period'', JStr period), (''input_tokens'', JInt 0),
                (''output_tokens'', JInt 0), (''total_tokens'', JInt 0),
                (''cost'', JFloat (Finite 0)),
                (''start_time'', JStr (iso_naive start_time)),
                (''end_time'', JStr (iso_naive (case end_arg of None \<Rightarrow> noon | Some x \<Rightarrow> x)))],
         if period \<in> set [''daily'', ''weekly'', ''monthly''] then t + 4 else t + 3)"
proof -
  have "(case start_arg of None \<Rightarrow> default_start period (clock env_failing t) | Some x \<Rightarrow> Inr x)
          = Inr start_time"
    using assms by (simp cong: option.case_cong)
  from get_time_period_stats_failing [OF env_failing_fails this, of end_arg]
  show ?thesis by (simp cong: option.case_cong)
qed

lemma main_stats_env_failing_days_7:
  "main_stats env_failing \<lparr>verbose = False, days = Some 7\<rparr> 0 =
     Inr ((JDict [(''input_tokens'', JInt 0), (''output_tokens'', JInt 0),
                  (''total_tokens'', JInt 0),
                  (''session_start'', JStr ''2024-06-15T11:00:00'')],
           JDict [(''period'', JStr ''last 7 days''), (''input_tokens'', JInt 0),
                  (''output_tokens'', JInt 0), (''total_tokens'', JInt 0),
                  (''cost'', JFloat (Finite 0)),
                  (''start_time'', JStr ''2024-06-08T12:00:00''),
                  (''end_time'', JStr ''2024-06-15T12:00:00'')],
           JDict [(''period'', JStr ''last 7 days''), (''input_tokens'', JInt 0),
                  (''output_tokens'', JInt 0), (''total_tokens'', JInt 0),
                  (''cost'', JFloat (Finite 0)),
                  (''start_time'', JStr ''2024-06-08T12:00:00''),
                  (''end_time'', JStr ''2024-06-15T12:00:00'')],
           JDict [(''period'', JStr ''last 7 days''), (''input_tokens'', JInt 0),
                  (''output_tokens'', JInt 0), (''total_tokens'', JInt 0),
                  (''cost'', JFloat (Finite 0)),
                  (''start_time'', JStr ''2024-06-08T12:00:00''),
                  (''end_time'', JStr ''2024-06-15T12:00:00'')]), 7)"
proof -
  have d: "timedelta_days 7 = Inr (7 * US_PER_DAY)" by (simp add: timedelta_days_def)
  have s: "dt_sub noon (7 * US_PER_DAY) = Inr 63853444800000000"
    by (simp add: dt_sub_def dt_valid_def noon_def US_PER_DAY_def MAX_ORDINAL_def)
  show ?thesis
    by (simp add: main_stats_def session_env_failing custom_period_def d s str_int_7
        period_env_failing iso_examples iso_12)
qed

theorem custom_days_window_witness:
  "(7::int) \<noteq> 0 \<and>
   main_stats env_failing \<lparr>verbose = False, days = Some 7\<rparr> 0 =
     Inr ((JDict [(''input_tokens'', JInt 0), (''output_tokens'', JInt 0),
                  (''total_tokens'', JInt 0),
                  (''session_start'', JStr ''2024-06-15T11:00:00'')],
           JDict [(''period'', JStr ''last 7 days''), (''input_tokens'', JInt 0),
                  (''output_tokens'', JInt 0), (''total_tokens'', JInt 0),
                  (''cost'', JFloat (Finite 0)),
                  (''start_time'', JStr ''2024-06-08T12:00:00''),
                  (''end_time'', JStr ''2024-06-15T12:00:00'')],
           JDict [(''period'', JStr ''last 7 days''), (''input_tokens'', JInt 0),
                  (''output_tokens'', JInt 0), (''total_tokens'', JInt 0),
                  (''cost'', JFloat (Finite 0)),
                  (''start_time'', JStr ''2024-06-08T12:00:00''),
                  (''end_time'', JStr ''2024-06-15T12:00:00'')],
           JDict [(''period'', JStr ''last 7 days''), (''input_tokens'', JInt 0),
                  (''output_tokens'', JInt 0), (''total_tokens'', JInt 0),
                  (''cost'', JFloat (Finite 0)),
                  (''start_time'', JStr ''2024-06-08T12:00:00''),
                  (''end_time'', JStr ''2024-06-15T12:00:00'')]), 7) \<and>
   get_current_session_stats env_failing 0 =
     Inr (JDict [(''input_tokens'', JInt 0), (''output_tokens'', JInt 0),
                 (''total_tokens'', JInt 0),
                 (''session_start'', JStr ''2024-06-15T11:00:00'')], 3) \<and>
   isoformat (Naive (clock env_failing 3 - 7 * US_PER_DAY)) = ''2024-06-08T12:00:00'' \<and>
   isoformat (Naive (clock env_failing 3)) = ''2024-06-15T12:00:00''"
  using custom_days_window [where n = 7 and e = env_failing
      and a = "\<lparr>verbose = False, days = Some 7\<rparr>" and t = 0, simplified,
      OF main_stats_env_failing_days_7]
  by (simp add: main_stats_env_failing_days_7 session_env_failing iso_examples noon_def
      US_PER_DAY_def)

text \<open>
  C7, the counterexample. With \<^verbatim>\<open>--days 0\<close> the three period stats are not identical:
  they are the daily, the weekly and the monthly window, which start on 15, 10 and 1 June
  for a run at noon of Saturday 15 June 2024.
\<close>

theorem days_zero_three_windows:
  "main_stats env_failing \<lparr>verbose = False, days = Some 0\<rparr> 0 =
     Inr ((JDict [(''input_tokens'', JInt 0), (''output_tokens'', JInt 0),
                  (''total_tokens'', JInt 0),
                  (''session_start'', JStr ''2024-06-15T11:00:00'')],
           JDict [(''period'', JStr ''daily''), (''input_tokens'', JInt 0),
                  (''output_tokens'', JInt 0), (''total_tokens'', JInt 0),
                  (''cost'', JFloat (Finite 0)),
                  (''start_time'', JStr ''2024-06-15T00:00:00''),
                  (''end_time'', JStr ''2024-06-15T12:00:00'')],
           JDict [(''period'', JStr ''weekly''), (''input_tokens'', JInt 0),
                  (''output_tokens'', JInt 0), (''total_tokens'', JInt 0),
                  (''cost'', JFloat (Finite 0)),
                  (''start_time'', JStr ''2024-06-10T00:00:00''),
                  (''end_time'', JStr ''2024-06-15T12:00:00'')],
           JDict [(''period'', JStr ''monthly''), (''input_tokens'', JInt 0),
                  (''output_tokens'', JInt 0), (''total_tokens'', JInt 0),
                  (''cost'', JFloat (Finite 0)),
                  (''start_time'', JStr ''2024-06-01T00:00:00''),
                  (''end_time'', JStr ''2024-06-15T12:00:00'')]), 15)"
  by (simp add: main_stats_def session_env_failing standard_periods_def
      period_env_failing default_start_noon iso_examples iso_12)

section \<open>Log aggregation\<close>

lemma parsed_timestamp_dict:
  assumes "parsed_timestamp e entry = Some d"
  obtains kvs ts where "entry = JDict kvs" and "map_of kvs ''timestamp'' = Some (JStr ts)"
    and "fromisoformat e (filter (\<lambda>c. c \<noteq> CHR ''Z'') ts) = Some d"
  using assms
  by (auto simp add: parsed_timestamp_def split: json.splits option.splits)

lemma window_body_naive:
  assumes "fromisoformat e (filter (\<lambda>c. c \<noteq> CHR ''Z'') ts) = Some (Naive t)"
  shows "window_body e start_time end_time counts (JDict kvs) (JStr ts) =
     (if t < start_time \<or> end_time < t then (counts, None)
      else if map_of kvs ''tokens'' \<noteq> None then add_entry_tokens counts (JDict kvs)
      else (counts, None))"
  using assms by (simp add: window_body_def dt_greater_def)

lemma period_log_entry_outside:
  assumes "outside_window e start_time end_time entry"
  shows "period_log_entry e start_time end_time counts entry = Inr counts"
proof -
  from assms obtain t where p: "parsed_timestamp e entry = Some (Naive t)"
    and o: "t < start_time \<or> end_time < t"
    by (auto simp add: outside_window_def split: option.splits pydt.splits)
  from p obtain kvs ts where "entry = JDict kvs"
    and "map_of kvs ''timestamp'' = Some (JStr ts)"
    and "fromisoformat e (filter (\<lambda>c. c \<noteq> CHR ''Z'') ts) = Some (Naive t)"
    by (rule parsed_timestamp_dict)
  with o show ?thesis
    by (simp add: period_log_entry_def window_body_naive)
qed

lemma period_log_loop_filter:
  "period_log_loop e start_time end_time counts entries =
   period_log_loop e start_time end_time counts
     (filter (\<lambda>entry. \<not> outside_window e start_time end_time entry) entries)"
  by (induction entries arbitrary: counts) (simp_all add: period_log_entry_outside)

lemma period_log_entry_changes:
  assumes "period_log_entry e start_time end_time counts entry = Inr counts'"
    and "counts' \<noteq> counts"
  shows "inside_window e start_time end_time entry"
proof (cases entry)
  case (JDict kvs)
  show ?thesis
  proof (cases "map_of kvs ''timestamp''")
    case None
    with assms JDict show ?thesis by (simp add: period_log_entry_def)
  next
    case (Some timestamp)
    show ?thesis
    proof (cases timestamp)
      case (JStr ts)
      show ?thesis
      proof (cases "fromisoformat e (filter (\<lambda>c. c \<noteq> CHR ''Z'') ts)")
        case None
        with assms JDict Some JStr show ?thesis
          by (simp add: period_log_entry_def window_body_def split: if_splits)
      next
        case (Some d)
        note parsed = this
        show ?thesis
        proof (cases d)
          case (Naive t)
          with assms JDict \<open>map_of kvs ''timestamp'' = Some timestamp\<close> JStr parsed
          have "\<not> (t < start_time \<or> end_time < t)"
            by (auto simp add: period_log_entry_def window_body_naive split: if_splits)
          with JDict \<open>map_of kvs ''timestamp'' = Some timestamp\<close> JStr parsed Naive
          show ?thesis
            by (simp add: inside_window_def parsed_timestamp_def)
        next
          case (Aware t off)
          with assms JDict \<open>map_of kvs ''timestamp'' = Some timestamp\<close> JStr parsed
          show ?thesis
            by (simp add: period_log_entry_def window_body_def split: if_splits)
        qed
      qed
    qed (use assms JDict Some in \<open>auto simp add: period_log_entry_def window_body_def
          split: if_splits pyfloat.splits\<close>)
  qed
qed (use assms in \<open>simp_all add: period_log_entry_def\<close>)

text \<open>
  C4. The log aggregation of \<^verbatim>\<open>get_time_period_stats\<close> gives the same result, for every
  list of entries and every window, when the entries with a timestamp strictly before
  \<^verbatim>\<open>start_time\<close> or strictly after \<^verbatim>\<open>end_time\<close> are removed from the list; and an entry
  changes the two counts only if its timestamp \<open>t\<close> satisfies
  \<open>start_time \<le> t \<le> end_time\<close>.
\<close>

theorem only_entries_in_window_are_counted:
  "period_log_loop e start_time end_time counts entries =
     period_log_loop e start_time end_time counts
       (filter (\<lambda>entry. \<not> outside_window e start_time end_time entry) entries) \<and>
   (period_log_entry e start_time end_time counts entry = Inr counts' \<longrightarrow>
    counts' \<noteq> counts \<longrightarrow> inside_window e start_time end_time entry)"
  using period_log_loop_filter period_log_entry_changes by blast

section \<open>Log aggregation: an example\<close>

lemma cost_10_20: "calculate_cost (JInt 10) (JInt 20) = Inr (Finite (3804640965202595 / 1152921504606846976))"
proof -
  have qa: "round_to_ulp (of_int 10 / 1000) = 5764607523034235 / 576460752303423488"
    by (simp add: round_to_ulp_eval [of "- 7"] round_half_even_def Let_def floor_rat_numeral)
  have pa: "round_to_ulp ((5764607523034235 / 576460752303423488) * rate_in) = 5534023222112865 / 18446744073709551616"
    by (simp add: rate_in_def round_to_ulp_eval [of "- 12"] round_half_even_def Let_def floor_rat_numeral)
  have qb: "round_to_ulp (of_int 20 / 1000) = 5764607523034235 / 288230376151711744"
    by (simp add: round_to_ulp_eval [of "- 6"] round_half_even_def Let_def floor_rat_numeral)
  have pb: "round_to_ulp ((5764607523034235 / 288230376151711744) * rate_out) = 3458764513820541 / 1152921504606846976"
    by (simp add: rate_out_def round_to_ulp_eval [of "- 9"] round_half_even_def Let_def floor_rat_numeral)
  have s: "round_to_ulp ((5534023222112865 / 18446744073709551616) + (3458764513820541 / 1152921504606846976)) = 3804640965202595 / 1152921504606846976"
    by (simp add: round_to_ulp_eval [of "- 9"] round_half_even_def Let_def floor_rat_numeral)
  have "\<bar>10\<bar> < TOKEN_LIMIT" and "\<bar>20\<bar> < TOKEN_LIMIT"
    by (simp_all add: TOKEN_LIMIT_def)
  then have "calculate_cost (JInt 10) (JInt 20) =
      Inr (Finite (round_to_ulp
        (round_to_ulp (round_to_ulp (of_int 10 / 1000) * rate_in) +
         round_to_ulp (round_to_ulp (of_int 20 / 1000) * rate_out))))"
    by (rule calculate_cost_value(1))
  then show ?thesis unfolding qa pa qb pb s .
qed

lemma fromisoformat_env_logs:
  "fromisoformat env_logs ''2024-06-15T11:30:00'' = Some (Naive 63854047800000000)"
  "fromisoformat env_logs ''2024-06-14T09:00:00'' = Some (Naive 63853952400000000)"
  "fromisoformat env_logs ''yesterday'' = None"
  by (simp_all add: env_logs_def)

lemma windows_env_logs:
  "inside_window env_logs 63854006400000000 noon entry_today"
  "outside_window env_logs 63854006400000000 noon entry_day_before"
  by (simp_all add: inside_window_def outside_window_def parsed_timestamp_def entry_today_def
      entry_day_before_def fromisoformat_env_logs noon_def)

lemma period_log_entry_today:
  "period_log_entry env_logs 63854006400000000 noon (JInt 0, JInt 0) entry_today
     = Inr (JInt 10, JInt 20)"
  by (simp add: period_log_entry_def window_body_def dt_greater_def add_entry_tokens_def
      entry_count_def entry_today_def tokens_value_def fromisoformat_env_logs noon_def)

lemma period_log_loop_env_logs:
  "period_log_loop env_logs 63854006400000000 noon (JInt 0, JInt 0)
     [entry_today, entry_day_before, entry_malformed] = Inr (JInt 10, JInt 20)"
  "period_log_loop env_logs 63854006400000000 noon (JInt 0, JInt 0)
     [entry_today, entry_malformed] = Inr (JInt 10, JInt 20)"
  by (simp_all add: period_log_entry_today period_log_entry_outside windows_env_logs)
     (simp_all add: period_log_entry_def window_body_def entry_malformed_def
       fromisoformat_env_logs)

lemma period_daily_env_logs:
  "get_time_period_stats env_logs ''daily'' None None 0 =
     Inr (JDict [(''period'', JStr ''daily''), (''input_tokens'', JInt 10),
                 (''output_tokens'', JInt 20), (''total_tokens'', JInt 30),
                 (''cost'', JFloat (Finite (3804640965202595 / 1152921504606846976))),
                 (''start_time'', JStr ''2024-06-15T00:00:00''),
                 (''end_time'', JStr ''2024-06-15T12:00:00'')], 4)"
proof -
  have f1: "fetch_json env_logs [JSONDecodeError] [''claude'', ''stats'', ''--period'', ''daily'', ''--format'',
              ''json''] (Suc 0) = Inr (None, 2)"
    by (simp add: fetch_json_def run_command_cases env_logs_def)
  have f2: "fetch_json env_logs [JSONDecodeError] [''claude'', ''stats'', ''--from'', ''2024-06-15'', ''--to'',
              ''2024-06-15'', ''--format'', ''json''] 2 = Inr (None, 3)"
    by (simp add: fetch_json_def run_command_cases env_logs_def)
  have f3: "fetch_json env_logs [JSONDecodeError] [''claude'', ''logs'', ''--format'', ''json'', ''--limit'',
              str_int (log_limit ''daily'')] 3
            = Inr (Some (JList [entry_today, entry_day_before, entry_malformed]), 4)"
    by (simp add: fetch_json_def run_command_cases env_logs_def)
  have s: "strftime_ymd env_logs t = ''2024-06-15''" for t
    by (simp add: env_logs_def)
  have l: "period_from_logs env_logs ''daily'' 63854006400000000 noon 3 =
     Inr (JDict [(''period'', JStr ''daily''), (''input_tokens'', JInt 10),
                 (''output_tokens'', JInt 20), (''total_tokens'', JInt 30),
                 (''cost'', JFloat (Finite (3804640965202595 / 1152921504606846976))),
                 (''start_time'', JStr ''2024-06-15T00:00:00''),
                 (''end_time'', JStr ''2024-06-15T12:00:00'')], 4)"
    unfolding period_from_logs_def f3
    by (simp add: period_log_loop_env_logs cost_10_20 iso_examples iso_12
        del: period_log_loop.simps)
  show ?thesis
    unfolding get_time_period_stats_def Let_def
    by (simp add: default_start_noon f1 period_from_range_def s f2 l)
qed

theorem only_entries_in_window_are_counted_witness:
  "period_log_loop env_logs 63854006400000000 noon (JInt 0, JInt 0)
     [entry_today, entry_day_before, entry_malformed] = Inr (JInt 10, JInt 20) \<and>
   filter (\<lambda>entry. \<not> outside_window env_logs 63854006400000000 noon entry)
     [entry_today, entry_day_before, entry_malformed] = [entry_today, entry_malformed] \<and>
   period_log_loop env_logs 63854006400000000 noon (JInt 0, JInt 0)
     [entry_today, entry_malformed] = Inr (JInt 10, JInt 20) \<and>
   period_log_entry env_logs 63854006400000000 noon (JInt 0, JInt 0) entry_today
     = Inr (JInt 10, JInt 20) \<and>
   (JInt 10, JInt 20) \<noteq> (JInt 0, JInt 0) \<and>
   inside_window env_logs 63854006400000000 noon entry_today \<and>
   get_time_period_stats env_logs ''daily'' None None 0 =
     Inr (JDict [(''period'', JStr ''daily''), (''input_tokens'', JInt 10),
                 (''output_tokens'', JInt 20), (''total_tokens'', JInt 30),
                 (''cost'', JFloat (Finite (3804640965202595 / 1152921504606846976))),
                 (''start_time'', JStr ''2024-06-15T00:00:00''),
                 (''end_time'', JStr ''2024-06-15T12:00:00'')], 4)"
proof -
  have o: "\<not> outside_window env_logs 63854006400000000 noon entry_today"
    "\<not> outside_window env_logs 63854006400000000 noon entry_malformed"
    by (simp_all add: outside_window_def parsed_timestamp_def entry_today_def
        entry_malformed_def fromisoformat_env_logs noon_def)
  show ?thesis
    using only_entries_in_window_are_counted [where e = env_logs
        and start_time = 63854006400000000 and end_time = noon and counts = "(JInt 0, JInt 0)"
        and entries = "[entry_today, entry_day_before, entry_malformed]"
        and entry = entry_today and counts' = "(JInt 10, JInt 20)"]
    by (simp add: period_log_loop_env_logs period_log_entry_today windows_env_logs o
        period_daily_env_logs del: period_log_loop.simps)
qed

section \<open>Timestamps\<close>

subsection \<open>Timestamps that are strings\<close>

lemma filter_trailing_Z:
  "filter (\<lambda>c. c \<noteq> CHR ''Z'') (ts @ ''Z'') = filter (\<lambda>c. c \<noteq> CHR ''Z'') ts"
  by simp

lemma add_entry_tokens_cong:
  assumes "map_of kvs ''tokens'' = map_of kvs' ''tokens''"
  shows "add_entry_tokens counts (JDict kvs) = add_entry_tokens counts (JDict kvs')"
proof -
  have c: "entry_count (JDict kvs) k = entry_count (JDict kvs') k" for k
    using assms by (simp add: entry_count_def)
  show ?thesis unfolding add_entry_tokens_def c ..
qed

text \<open>Setting or deleting the timestamp of an entry leaves its token counts alone.\<close>

lemma tokens_untouched:
  "py_contains ''tokens'' (JDict (AList.update ''timestamp'' v kvs))
     = py_contains ''tokens'' (JDict kvs)"
  "add_entry_tokens counts (JDict (AList.update ''timestamp'' v kvs))
     = add_entry_tokens counts (JDict kvs)"
  "py_contains ''tokens'' (JDict (AList.delete ''timestamp'' kvs))
     = py_contains ''tokens'' (JDict kvs)"
  "add_entry_tokens counts (JDict (AList.delete ''timestamp'' kvs))
     = add_entry_tokens counts (JDict kvs)"
proof -
  show "py_contains ''tokens'' (JDict (AList.update ''timestamp'' v kvs))
     = py_contains ''tokens'' (JDict kvs)"
    by (simp add: update_conv')
  show "py_contains ''tokens'' (JDict (AList.delete ''timestamp'' kvs))
     = py_contains ''tokens'' (JDict kvs)"
    by (simp add: delete_conv')
  show "add_entry_tokens counts (JDict (AList.update ''timestamp'' v kvs))
     = add_entry_tokens counts (JDict kvs)"
    by (rule add_entry_tokens_cong) (simp add: update_conv')
  show "add_entry_tokens counts (JDict (AList.delete ''timestamp'' kvs))
     = add_entry_tokens counts (JDict kvs)"
    by (rule add_entry_tokens_cong) (simp add: delete_conv')
qed

lemma period_log_entry_trailing_Z:
  assumes "map_of kvs ''timestamp'' = Some (JStr (ts @ ''Z''))" and "ts \<noteq> []"
  shows "period_log_entry e start_time end_time counts (JDict kvs) =
         period_log_entry e start_time end_time counts
           (JDict (AList.update ''timestamp'' (JStr ts) kvs))"
proof -
  have g: "py_get (JDict kvs) ''timestamp'' JNull = Inr (JStr (ts @ ''Z''))"
    "py_get (JDict (AList.update ''timestamp'' (JStr ts) kvs)) ''timestamp'' JNull
       = Inr (JStr ts)"
    using assms(1) by (simp_all add: update_conv')
  have p: "py_truthy (JStr (ts @ ''Z'')) = True" "py_truthy (JStr ts) = True"
    using assms(2) by simp_all
  show ?thesis
    unfolding period_log_entry_def window_body_def g try_bind_Inr p py_replace_Z.simps
      filter_trailing_Z tokens_untouched ..
qed

lemma session_log_entry_trailing_Z:
  assumes "map_of kvs ''timestamp'' = Some (JStr (ts @ ''Z''))" and "ts \<noteq> []"
  shows "session_log_entry e acc (JDict kvs) =
         session_log_entry e acc (JDict (AList.update ''timestamp'' (JStr ts) kvs))"
proof -
  have g: "py_get (JDict kvs) ''timestamp'' JNull = Inr (JStr (ts @ ''Z''))"
    "py_get (JDict (AList.update ''timestamp'' (JStr ts) kvs)) ''timestamp'' JNull
       = Inr (JStr ts)"
    using assms(1) by (simp_all add: update_conv')
  have p: "py_truthy (JStr (ts @ ''Z'')) = True" "py_truthy (JStr ts) = True"
    using assms(2) by simp_all
  show ?thesis
    unfolding session_log_entry_def track_timestamp_def g try_bind_Inr p py_replace_Z.simps
      filter_trailing_Z tokens_untouched ..
qed

lemma malformed_timestampD:
  assumes "malformed_timestamp e kvs"
  obtains ts where "map_of kvs ''timestamp'' = Some (JStr ts)" and "ts \<noteq> []"
    and "fromisoformat e (filter (\<lambda>c. c \<noteq> CHR ''Z'') ts) = None"
  using assms by (auto simp add: malformed_timestamp_def split: option.splits json.splits)

lemma period_log_entry_malformed:
  assumes "malformed_timestamp e kvs"
  shows "period_log_entry e start_time end_time counts (JDict kvs) = Inr counts"
  using assms
  by (elim malformed_timestampD) (simp add: period_log_entry_def window_body_def)

lemma session_log_entry_malformed:
  assumes "malformed_timestamp e kvs"
  shows "session_log_entry e acc (JDict kvs) =
         session_log_entry e acc (JDict (AList.delete ''timestamp'' kvs))"
proof -
  from assms obtain ts where ts: "map_of kvs ''timestamp'' = Some (JStr ts)" "ts \<noteq> []"
    "fromisoformat e (filter (\<lambda>c. c \<noteq> CHR ''Z'') ts) = None"
    by (rule malformed_timestampD)
  have g: "py_get (JDict kvs) ''timestamp'' JNull = Inr (JStr ts)"
    "py_get (JDict (AList.delete ''timestamp'' kvs)) ''timestamp'' JNull = Inr JNull"
    using ts(1) by (simp_all add: delete_conv')
  have p: "py_truthy (JStr ts) = True" "py_truthy JNull = False"
    using ts(2) by simp_all
  have k: "track_timestamp e fl (JStr ts) = (fl, Some ValueError)" for fl
    using ts(3) by (simp add: track_timestamp_def split: prod.splits)
  obtain counts fl where acc: "acc = (counts, fl)" by (cases acc)
  show ?thesis
    unfolding session_log_entry_def g try_bind_Inr p k tokens_untouched acc prod.case
      option.case if_True if_False
    by (simp only: simp_thms if_True)
qed

text \<open>
  What the two loops do with a timestamp that is a string. One with a trailing \<^verbatim>\<open>Z\<close> is
  processed as the same string without it. An entry whose timestamp \<^verbatim>\<open>fromisoformat\<close>
  rejects is skipped by the period loop, which goes on with the rest of the list; the
  session loop, which adds the token counts before it looks at the timestamp, processes
  it as if it had no timestamp. Neither loop raises because of such a string.
\<close>

lemma string_timestamps_tolerated:
  "(map_of kvs ''timestamp'' = Some (JStr (ts @ ''Z'')) \<longrightarrow> ts \<noteq> [] \<longrightarrow>
      period_log_entry e start_time end_time counts (JDict kvs) =
        period_log_entry e start_time end_time counts
          (JDict (AList.update ''timestamp'' (JStr ts) kvs)) \<and>
      session_log_entry e acc (JDict kvs) =
        session_log_entry e acc (JDict (AList.update ''timestamp'' (JStr ts) kvs))) \<and>
   (malformed_timestamp e kvs \<longrightarrow>
      period_log_entry e start_time end_time counts (JDict kvs) = Inr counts \<and>
      period_log_loop e start_time end_time counts (JDict kvs # rest) =
        period_log_loop e start_time end_time counts rest \<and>
      session_log_entry e acc (JDict kvs) =
        session_log_entry e acc (JDict (AList.delete ''timestamp'' kvs)))"
proof (intro conjI impI)
  assume "map_of kvs ''timestamp'' = Some (JStr (ts @ ''Z''))" and "ts \<noteq> []"
  then show "period_log_entry e start_time end_time counts (JDict kvs) =
        period_log_entry e start_time end_time counts
          (JDict (AList.update ''timestamp'' (JStr ts) kvs))"
    and "session_log_entry e acc (JDict kvs) =
        session_log_entry e acc (JDict (AList.update ''timestamp'' (JStr ts) kvs))"
    by (rule period_log_entry_trailing_Z, rule session_log_entry_trailing_Z)
next
  assume m: "malformed_timestamp e kvs"
  then show skip: "period_log_entry e start_time end_time counts (JDict kvs) = Inr counts"
    by (rule period_log_entry_malformed)
  then show "period_log_loop e start_time end_time counts (JDict kvs # rest) =
        period_log_loop e start_time end_time counts rest"
    by simp
  from m show "session_log_entry e acc (JDict kvs) =
        session_log_entry e acc (JDict (AList.delete ''timestamp'' kvs))"
    by (rule session_log_entry_malformed)
qed

lemma malformed_env_logs:
  "malformed_timestamp env_logs
     [(''timestamp'', JStr ''yesterday''), (''tokens'', tokens_value 1000 2000)]"
  by (simp add: malformed_timestamp_def fromisoformat_env_logs)

lemma session_log_entry_malformed_env_logs:
  "session_log_entry env_logs ((JInt 0, JInt 0), (None, None))
     (JDict [(''timestamp'', JStr ''yesterday''), (''tokens'', tokens_value 1000 2000)])
   = Inr ((JInt 1000, JInt 2000), (None, None))"
  by (simp add: session_log_entry_def add_entry_tokens_def entry_count_def
      track_timestamp_def tokens_value_def fromisoformat_env_logs)

lemma period_log_entry_Z_env_logs:
  "period_log_entry env_logs 63854006400000000 noon (JInt 0, JInt 0)
     (JDict [(''timestamp'', JStr ''2024-06-15T11:30:00''), (''tokens'', tokens_value 10 20)])
   = Inr (JInt 10, JInt 20)"
  by (simp add: period_log_entry_def window_body_def dt_greater_def add_entry_tokens_def
      entry_count_def tokens_value_def fromisoformat_env_logs noon_def)

text \<open>
  The session loop does not skip an entry whose timestamp fails to parse: the 1000 and
  2000 tokens of the entry stamped \<^verbatim>\<open>yesterday\<close> are in the session's totals.
\<close>

lemma session_counts_entry_with_unparseable_timestamp:
  "malformed_timestamp env_logs
     [(''timestamp'', JStr ''yesterday''), (''tokens'', tokens_value 1000 2000)] \<and>
   session_log_entry env_logs ((JInt 0, JInt 0), (None, None))
     (JDict [(''timestamp'', JStr ''yesterday''), (''tokens'', tokens_value 1000 2000)])
     = Inr ((JInt 1000, JInt 2000), (None, None)) \<and>
   entry_malformed
     = JDict [(''timestamp'', JStr ''yesterday''), (''tokens'', tokens_value 1000 2000)] \<and>
   get_current_session_stats env_logs 0 =
     Inr (JDict [(''input_tokens'', JInt 1110), (''output_tokens'', JInt 2220),
                 (''total_tokens'', JInt 3330),
                 (''session_start'', JStr ''2024-06-14T09:00:00'')], 2)"
  using malformed_env_logs session_log_entry_malformed_env_logs session_env_logs
  by (simp add: entry_malformed_def)

subsection \<open>Timestamps that are not strings\<close>

text \<open>
  A timestamp that is true and not a string, a number for instance, has no method
  \<^verbatim>\<open>replace\<close>: \<^verbatim>\<open>timestamp.replace("Z", "")\<close> raises \<^verbatim>\<open>AttributeError\<close>, which the
  handler for \<^verbatim>\<open>(ValueError, TypeError)\<close> of either loop lets through.
\<close>

lemma period_log_entry_numeric_timestamp:
  assumes "map_of kvs ''timestamp'' = Some (JInt n)" and "n \<noteq> 0"
  shows "period_log_entry e start_time end_time counts (JDict kvs) = Inl AttributeError"
  using assms by (simp add: period_log_entry_def window_body_def)

lemma session_log_entry_numeric_timestamp:
  assumes "map_of kvs ''timestamp'' = Some (JInt n)" and "n \<noteq> 0"
    and "map_of kvs ''tokens'' = None"
  shows "session_log_entry e acc (JDict kvs) = Inl AttributeError"
  using assms
  by (cases acc) (simp add: session_log_entry_def track_timestamp_def split: prod.splits)

lemma fetches_env_epoch:
  "fetch_json env_epoch [JSONDecodeError] [''claude'', ''stats'', ''--format'', ''json''] 0
     = Inr (None, 1)"
  "fetch_json env_epoch [JSONDecodeError, AttributeError]
     [''claude'', ''logs'', ''--format'', ''json'', ''--limit'', str_int SESSION_LOG_LIMIT] (Suc 0)
     = Inr (Some (JList [entry_today, entry_epoch]), 2)"
  "fetch_json env_epoch [JSONDecodeError]
     [''claude'', ''stats'', ''--period'', ''daily'', ''--format'', ''json''] (Suc 0)
     = Inr (None, 2)"
  "fetch_json env_epoch [JSONDecodeError]
     [''claude'', ''stats'', ''--from'', ''2024-06-15'', ''--to'', ''2024-06-15'',
      ''--format'', ''json''] 2
     = Inr (None, 3)"
  "fetch_json env_epoch [JSONDecodeError]
     [''claude'', ''logs'', ''--format'', ''json'', ''--limit'', str_int (log_limit ''daily'')] 3
     = Inr (Some (JList [entry_today, entry_epoch]), 4)"
  by (simp_all add: fetch_json_def run_command_cases env_epoch_def)

lemma fromisoformat_env_epoch:
  "fromisoformat env_epoch ''2024-06-15T11:30:00'' = Some (Naive 63854047800000000)"
  by (simp add: env_epoch_def)

lemma period_log_loop_env_epoch:
  "period_log_loop env_epoch 63854006400000000 noon (JInt 0, JInt 0)
     [entry_today, entry_epoch] = Inl AttributeError"
  by (simp add: period_log_entry_def window_body_def dt_greater_def add_entry_tokens_def
      entry_count_def entry_today_def entry_epoch_def tokens_value_def
      fromisoformat_env_epoch noon_def)

lemma session_log_loop_env_epoch:
  "session_log_loop env_epoch ((JInt 0, JInt 0), (None, None))
     [entry_today, entry_epoch] = Inl AttributeError"
  by (simp add: session_log_entry_def add_entry_tokens_def entry_count_def
      track_timestamp_def entry_today_def entry_epoch_def tokens_value_def
      fromisoformat_env_epoch Let_def)

lemma period_daily_env_epoch:
  "get_time_period_stats env_epoch ''daily'' None None 0 = Inl AttributeError"
proof -
  have s: "strftime_ymd env_epoch t = ''2024-06-15''" and c: "clock env_epoch n = noon"
    for t n
    by (simp_all add: env_epoch_def)
  have l: "period_from_logs env_epoch ''daily'' 63854006400000000 noon 3 = Inl AttributeError"
    unfolding period_from_logs_def fetches_env_epoch
    by (simp add: period_log_loop_env_epoch del: period_log_loop.simps)
  show ?thesis
    unfolding get_time_period_stats_def Let_def
    by (simp add: c default_start_noon fetches_env_epoch period_from_range_def s l)
qed

lemma session_env_epoch:
  "get_current_session_stats env_epoch 0 =
     Inr (JDict [(''input_tokens'', JInt 0), (''output_tokens'', JInt 0),
                 (''total_tokens'', JInt 0),
                 (''session_start'', JStr ''2024-06-15T11:00:00'')], 3)"
proof -
  have c: "clock env_epoch n = noon" for n
    by (simp add: env_epoch_def)
  have v: "dt_sub noon US_PER_HOUR = Inr (noon - US_PER_HOUR)"
    by (simp add: dt_sub_def dt_valid_def noon_def US_PER_HOUR_def US_PER_DAY_def
        MAX_ORDINAL_def)
  have l: "session_from_logs env_epoch (JList [entry_today, entry_epoch]) 2
             = Inl AttributeError"
    by (simp add: session_from_logs_def session_log_loop_env_epoch
        del: session_log_loop.simps)
  have z: "session_empty env_epoch 2 =
     Inr (JDict [(''input_tokens'', JInt 0), (''output_tokens'', JInt 0),
                 (''total_tokens'', JInt 0),
                 (''session_start'', JStr ''2024-06-15T11:00:00'')], 3)"
    by (simp add: session_empty_def c v iso_11)
  show ?thesis
    by (simp add: get_current_session_stats_def fetches_env_epoch l z)
qed

text \<open>
  C8. The claim says that a malformed timestamp never aborts the aggregation or raises.
  With logs of two entries, one of 11:30 with 10 and 20 tokens and one whose timestamp
  is the number 1718451000, \<^verbatim>\<open>get_time_period_stats("daily")\<close> raises \<^verbatim>\<open>AttributeError\<close>
  from inside its loop, and \<^verbatim>\<open>get_current_session_stats\<close>, whose outer handler catches
  the \<^verbatim>\<open>AttributeError\<close>, gives up the aggregation and returns the zeros of its last
  resort: the tokens of the well-formed entry are lost in both.
\<close>

theorem numeric_timestamp_aborts_aggregation:
  "get_time_period_stats env_epoch ''daily'' None None 0 = Inl AttributeError \<and>
   get_current_session_stats env_epoch 0 =
     Inr (JDict [(''input_tokens'', JInt 0), (''output_tokens'', JInt 0),
                 (''total_tokens'', JInt 0),
                 (''session_start'', JStr ''2024-06-15T11:00:00'')], 3)"
  using period_daily_env_epoch session_env_epoch by simp

end
